theory Spec2Isabelle
  imports Complex_Main "HOL-Library.AList"
begin

section \<open>Python string primitives used by the adapters\<close>

text \<open>
  Python strings are sequences of code points. The model uses \<^typ>\<open>string\<close>, whose
  characters are the code points below 256, so it covers Latin-1 text. On that range
  \<open>str.lower\<close> maps one character to one character, which is what lets the adapters use an
  index found in the lowered text as an index into the original text.
\<close>

definition is_space :: "char \<Rightarrow> bool" where
  \<comment> \<open>\<open>str.isspace\<close> on one character: tab, LF, VT, FF, CR, FS..US, space, NEL, NBSP\<close>
  "is_space c =
     (let n = (of_char c :: nat)
      in (9 \<le> n \<and> n \<le> 13) \<or> (28 \<le> n \<and> n \<le> 32) \<or> n = 133 \<or> n = 160)"

definition lower_char :: "char \<Rightarrow> char" where
  "lower_char c =
     (let n = (of_char c :: nat)
      in if (65 \<le> n \<and> n \<le> 90) \<or> (192 \<le> n \<and> n \<le> 222 \<and> n \<noteq> 215)
         then char_of (n + 32) else c)"

definition lower :: "string \<Rightarrow> string" where
  "lower s = map lower_char s"

definition strip :: "string \<Rightarrow> string" where
  "strip s = rev (dropWhile is_space (rev (dropWhile is_space s)))"

fun startswith :: "string \<Rightarrow> string \<Rightarrow> bool" where
  "startswith s [] = True"
| "startswith [] (p # ps) = False"
| "startswith (c # cs) (p # ps) = (c = p \<and> startswith cs ps)"

fun find :: "string \<Rightarrow> string \<Rightarrow> nat option" where
  \<comment> \<open>\<open>s.find(sub)\<close>; \<open>None\<close> stands for Python's \<open>-1\<close>\<close>
  "find [] sub = (if sub = [] then Some 0 else None)"
| "find (c # cs) sub =
     (if startswith (c # cs) sub then Some 0 else map_option Suc (find cs sub))"

definition contains :: "string \<Rightarrow> string \<Rightarrow> bool" where
  \<comment> \<open>\<open>sub in s\<close>\<close>
  "contains s sub = (find s sub \<noteq> None)"

fun count_from :: "string \<Rightarrow> string \<Rightarrow> nat" where
  "count_from [] sub = 0"
| "count_from (c # cs) sub =
     (if startswith (c # cs) sub
      then Suc (count_from (drop (length sub - 1) cs) sub)
      else count_from cs sub)"

definition count :: "string \<Rightarrow> string \<Rightarrow> nat" where
  \<comment> \<open>\<open>s.count(sub)\<close>: occurrences that do not overlap, scanning from the left\<close>
  "count s sub = (if sub = [] then length s + 1 else count_from s sub)"

fun split_on :: "char \<Rightarrow> string \<Rightarrow> string list" where
  \<comment> \<open>\<open>s.split(d)\<close> for a one-character separator\<close>
  "split_on d [] = [[]]"
| "split_on d (c # cs) =
     (if c = d then [] # split_on d cs
      else (case split_on d cs of [] \<Rightarrow> [[c]] | l # ls \<Rightarrow> (c # l) # ls))"

fun join :: "string \<Rightarrow> string list \<Rightarrow> string" where
  "join sep [] = []"
| "join sep [x] = x"
| "join sep (x # y # ys) = x @ sep @ join sep (y # ys)"

function split_ws :: "string \<Rightarrow> string list" where
  \<comment> \<open>\<open>s.split()\<close>: the maximal runs of characters that are not whitespace\<close>
  "split_ws [] = []"
| "split_ws (c # cs) =
     (if is_space c then split_ws cs
      else takeWhile (\<lambda>x. \<not> is_space x) (c # cs) # split_ws (dropWhile (\<lambda>x. \<not> is_space x) cs))"
  by pat_completeness auto
termination
  by (relation "measure length") (auto simp: length_dropWhile_le less_Suc_eq_le)

definition newline :: char where
  "newline = CHR 0x0A"

definition slice_to :: "int \<Rightarrow> 'a list \<Rightarrow> 'a list" where
  \<comment> \<open>\<open>xs[:n]\<close> for any integer \<open>n\<close>: a negative \<open>n\<close> counts from the end\<close>
  "slice_to n xs = (if 0 \<le> n then take (nat n) xs else take (length xs - nat (- n)) xs)"

section \<open>Snippet extraction\<close>

text \<open>
  \<open>_extract_snippet(content, query, context_lines = 3)\<close>, the same text in
  \<open>knowledge_base.py\<close>, \<open>context7_tool.py\<close> and \<open>github_readme_tool.py\<close>.
\<close>

definition extract_snippet :: "string \<Rightarrow> string \<Rightarrow> string" where
  "extract_snippet content query =
     (let content_lower = lower content;
          query_lower = lower query
      in case find content_lower query_lower of
           None \<Rightarrow> join [newline] (take 5 (split_on newline content))
         | Some idx \<Rightarrow>
             (let lines = split_on newline content;
                  line_idx = count (take idx content) [newline];
                  \<comment> \<open>\<open>max(0, line_idx - context_lines)\<close>: subtraction on \<open>nat\<close> stops at 0\<close>
                  start = line_idx - 3;
                  end = min (length lines) (line_idx + 3 + 1);
                  snippet_lines = take (end - start) (drop start lines);
                  snippet = join [newline] snippet_lines
              in if length snippet < 500 then snippet
                 else take 500 snippet @ ''...''))"

section \<open>Retrieval results and deduplication\<close>

type_synonym metadata = "(string \<times> string) list"

record chunk =
  chunk_id :: string
  fingerprint :: "string option"
  chunk_text :: string
  metadata :: metadata

text \<open>
  A \<open>RetrievalResult\<close> of the retrieval library: a chunk and its score. Scores are finite
  floats, modelled by the reals they denote.
\<close>

record retrieval_result =
  chunk :: chunk
  score :: real

definition or_else :: "string option \<Rightarrow> string \<Rightarrow> string" where
  \<comment> \<open>\<open>a or b\<close> on an optional string: \<open>None\<close> and the empty string are falsy\<close>
  "or_else a b = (case a of None \<Rightarrow> b | Some x \<Rightarrow> if x = [] then b else x)"

definition dedup_key :: "retrieval_result \<Rightarrow> string" where
  "dedup_key r = or_else (fingerprint (chunk r)) (chunk_id (chunk r))"

text \<open>
  The loop of \<open>_deduplicate_results\<close> over a dictionary that keeps insertion order: a key
  that is already there keeps its position when its value is replaced.
\<close>

fun dedup_loop ::
  "(string \<times> retrieval_result) list \<Rightarrow> retrieval_result list \<Rightarrow> (string \<times> retrieval_result) list"
where
  "dedup_loop deduped [] = deduped"
| "dedup_loop deduped (r # rs) =
     (let fp = dedup_key r
      in case map_of deduped fp of
           None \<Rightarrow> dedup_loop (AList.update fp r deduped) rs
         | Some existing \<Rightarrow>
             if score r > score existing then dedup_loop (AList.update fp r deduped) rs
             else dedup_loop deduped rs)"

definition sorted_reverse :: "('a \<Rightarrow> real) \<Rightarrow> 'a list \<Rightarrow> 'a list" where
  \<comment> \<open>\<open>sorted(xs, key=f, reverse=True)\<close>: stable, so equal keys keep their order\<close>
  "sorted_reverse f xs = rev (sort_key f (rev xs))"

definition deduplicate_results :: "retrieval_result list \<Rightarrow> retrieval_result list" where
  "deduplicate_results results = sorted_reverse score (map snd (dedup_loop [] results))"

section \<open>Search results and the keyword fallback\<close>

text \<open>
  A search result is the dictionary the adapters return. Keyword scores are Python integers
  and index scores are floats; both are modelled by the number they denote. The keyword
  results of the knowledge base carry no \<open>metadata\<close> entry.
\<close>

record search_result =
  r_path :: string
  r_type :: string
  r_snippet :: string
  r_score :: real
  r_full_content :: string
  r_metadata :: "metadata option"

record document =
  doc_path :: string
  doc_content :: string
  doc_type :: string

definition is_heading_match :: "string list \<Rightarrow> string \<Rightarrow> bool" where
  \<comment> \<open>\<open>line.strip().startswith("#") and any(term in line.lower() for term in query_terms)\<close>\<close>
  "is_heading_match query_terms line =
     (startswith (strip line) ''#'' \<and> list_ex (\<lambda>term. contains (lower line) term) query_terms)"

definition kb_score :: "string \<Rightarrow> string list \<Rightarrow> document \<Rightarrow> int" where
  \<comment> \<open>the body of the loop of \<open>KnowledgeBase._search_keyword\<close> up to \<open>if score > 0\<close>\<close>
  "kb_score query_lower query_terms doc =
     (let content = lower (doc_content doc);
          path = lower (doc_path doc);
          score0 = (if contains content query_lower then 10 else 0);
          term_matches = sum_list (map (\<lambda>term. int (count content term)) query_terms);
          score1 = score0 + term_matches;
          score2 = (if list_ex (\<lambda>term. contains path term) query_terms then score1 + 5 else score1)
      in fold (\<lambda>line score. if is_heading_match query_terms line then score + 3 else score)
              (take 20 (split_on newline (doc_content doc))) score2)"

fun kb_keyword_loop :: "string \<Rightarrow> string list \<Rightarrow> document list \<Rightarrow> search_result list" where
  "kb_keyword_loop query_lower query_terms [] = []"
| "kb_keyword_loop query_lower query_terms (doc # docs) =
     (let score = kb_score query_lower query_terms doc
      in (if score > 0
          then [\<lparr>r_path = doc_path doc, r_type = doc_type doc,
                 r_snippet = extract_snippet (doc_content doc) query_lower,
                 r_score = of_int score,
                 r_full_content = take 2000 (doc_content doc),
                 r_metadata = None\<rparr>]
          else [])
         @ kb_keyword_loop query_lower query_terms docs)"

definition kb_search_keyword :: "document list \<Rightarrow> string \<Rightarrow> int \<Rightarrow> search_result list" where
  "kb_search_keyword index query max_results =
     (let query_lower = lower query;
          query_terms = split_ws query_lower;
          results = kb_keyword_loop query_lower query_terms index
      in slice_to max_results (sorted_reverse r_score results))"

definition remote_score :: "string \<Rightarrow> string \<Rightarrow> int" where
  \<comment> \<open>the score of \<open>_search_keyword\<close> in \<open>context7_tool.py\<close> and \<open>github_readme_tool.py\<close>\<close>
  "remote_score query content =
     (let query_lower = lower query;
          query_terms = split_ws query_lower;
          content_lower = lower content;
          score0 = (if contains content_lower query_lower then 10 else 0)
      in score0 + sum_list (map (\<lambda>term. int (count content_lower term)) query_terms))"

definition c7_search_keyword :: "string \<Rightarrow> string \<Rightarrow> int \<Rightarrow> search_result list" where
  "c7_search_keyword query content max_results =
     (let score = remote_score query content
      in if score > 0
         then [\<lparr>r_path = ''Context7'', r_type = ''documentation'',
                r_snippet = extract_snippet content (lower query),
                r_score = of_int score,
                r_full_content = take 2000 content,
                r_metadata = Some [(''source'', ''context7'')]\<rparr>]
         else [])"

definition gh_search_keyword :: "string \<Rightarrow> string \<Rightarrow> int \<Rightarrow> search_result list" where
  "gh_search_keyword query content max_results =
     (let score = remote_score query content
      in if score > 0
         then [\<lparr>r_path = ''README.md'', r_type = ''readme'',
                r_snippet = extract_snippet content (lower query),
                r_score = of_int score,
                r_full_content = take 2000 content,
                r_metadata = Some [(''source'', ''github'')]\<rparr>]
         else [])"

section \<open>The external retrieval library\<close>

text \<open>
  Chunking, embedding, query expansion and the hybrid search engine come from a library
  that is not part of the repository. Each capability is a parameter of the model, and each
  call may raise. \<open>ClientError\<close> is \<open>aiohttp.ClientError\<close>; \<open>Exception\<close> is any other
  exception.
\<close>

datatype error = ClientError | Exception

type_synonym vector = "real list"

record embeddings =
  dense :: "vector list option"
  sparse :: "vector list option"

text \<open>
  A \<open>HybridSearchEngine\<close> is represented by the arguments it was given: its dimension and
  the batches passed to \<open>add_documents\<close>, in order.
\<close>

record engine =
  dimension :: nat
  batches :: "(chunk list \<times> vector list \<times> vector list option) list"

definition new_engine :: "nat \<Rightarrow> engine" where
  "new_engine d = \<lparr>dimension = d, batches = []\<rparr>"

definition add_documents ::
  "engine \<Rightarrow> chunk list \<Rightarrow> vector list \<Rightarrow> vector list option \<Rightarrow> engine" where
  "add_documents e chunks dense_embeddings sparse_embeddings =
     e\<lparr>batches := batches e @ [(chunks, dense_embeddings, sparse_embeddings)]\<rparr>"

record rag_env =
  chunk_document :: "string \<Rightarrow> metadata \<Rightarrow> error + chunk list"
  encode_documents :: "string list \<Rightarrow> error + embeddings"
  encode_queries :: "string list \<Rightarrow> error + embeddings"
  enhance_query :: "string \<Rightarrow> error + string list"
  engine_search ::
    "engine \<Rightarrow> string \<Rightarrow> vector option \<Rightarrow> vector option \<Rightarrow> int \<Rightarrow> int
       \<Rightarrow> error + retrieval_result list"

text \<open>
  The trace records, in order, the calls an adapter makes to the outside during indexing and
  fetching: a network request, a file read, a call of the chunker and a call of the
  document encoder.
\<close>

datatype event =
    HttpGet "string option" int
  | ReadmeGet
  | ReadFile string
  | ChunkDocument string
  | EncodeDocuments "string list"

text \<open>
  What the \<open>try\<close> block of a fetch meets before it has the text: \<open>_get_http_client\<close>
  returns \<open>None\<close>; or creating the session, the request, \<open>raise_for_status\<close> or reading
  the body raises; or the body arrives. The outcome is a parameter of the model, so the
  session object itself is not part of the adapter state.
\<close>

datatype http_outcome =
    NoClient
  | Failed error
  | Body string

definition first_vector :: "vector list option \<Rightarrow> vector option" where
  \<comment> \<open>\<open>vecs = list(v) if v is not None else []; vecs[0] if vecs else None\<close>\<close>
  "first_vector v = (case v of None \<Rightarrow> None | Some [] \<Rightarrow> None | Some (x # xs) \<Rightarrow> Some x)"

fun search_variations ::
  "rag_env \<Rightarrow> engine \<Rightarrow> int \<Rightarrow> int \<Rightarrow> retrieval_result list \<Rightarrow> string list
     \<Rightarrow> error + retrieval_result list"
where
  \<comment> \<open>the loop \<open>for variation in variations\<close> of \<open>_rag_search\<close>\<close>
  "search_variations env eng search_k max_results aggregated [] = Inr aggregated"
| "search_variations env eng search_k max_results aggregated (variation # variations) =
     (case encode_queries env [variation] of
        Inl e \<Rightarrow> Inl e
      | Inr encoded \<Rightarrow>
          (case engine_search env eng variation (first_vector (dense encoded))
                  (first_vector (sparse encoded)) search_k max_results of
             Inl e \<Rightarrow> Inl e
           | Inr results \<Rightarrow>
               search_variations env eng search_k max_results (aggregated @ results) variations))"

definition rag_candidates ::
  "rag_env \<Rightarrow> engine \<Rightarrow> string \<Rightarrow> int \<Rightarrow> error + retrieval_result list" where
  \<comment> \<open>\<open>_rag_search\<close> from \<open>enhance_query\<close> to \<open>deduped[:max_results]\<close>\<close>
  "rag_candidates env eng query max_results =
     (case enhance_query env query of
        Inl e \<Rightarrow> Inl e
      | Inr variations \<Rightarrow>
          (case search_variations env eng (max 25 max_results) max_results [] variations of
             Inl e \<Rightarrow> Inl e
           | Inr aggregated \<Rightarrow> Inr (slice_to max_results (deduplicate_results aggregated))))"

definition get_or :: "metadata \<Rightarrow> string \<Rightarrow> string \<Rightarrow> string" where
  \<comment> \<open>\<open>metadata.get(key, default)\<close>\<close>
  "get_or md key dflt = (case map_of md key of None \<Rightarrow> dflt | Some v \<Rightarrow> v)"

section \<open>The remote-proxy adapter: \<open>Context7Search\<close>\<close>

record rag_index =
  ri_engine :: engine
  ri_chunks :: "chunk list"
  ri_ready :: bool

text \<open>
  The cache key \<open>f"context7:{topic or 'default'}:{tokens}"\<close> determines the pair of the
  topic (or \<open>default\<close>) and the token budget, and is modelled by that pair.
\<close>

record context7 =
  c7_cache :: "string \<times> int \<rightharpoonup> string"
  c7_cache_enabled :: bool
  c7_rag_indices :: "string \<rightharpoonup> rag_index"
  c7_building_index :: "string \<rightharpoonup> bool"
  c7_trace :: "event list"

definition c7_log :: "event \<Rightarrow> context7 \<Rightarrow> context7" where
  "c7_log ev s = s\<lparr>c7_trace := c7_trace s @ [ev]\<rparr>"

definition c7_index_ready :: "context7 \<Rightarrow> string \<Rightarrow> bool" where
  \<comment> \<open>\<open>topic_key in self._rag_indices and self._rag_indices[topic_key].get("ready", False)\<close>;
      every entry the adapter stores has an engine, so \<open>rag_index.get("engine")\<close> adds nothing\<close>
  "c7_index_ready s topic_key =
     (case c7_rag_indices s topic_key of None \<Rightarrow> False | Some ri \<Rightarrow> ri_ready ri)"

definition c7_metadata :: "string \<Rightarrow> metadata" where
  "c7_metadata topic_key =
     [(''source'', ''context7''), (''topic'', topic_key), (''type'', ''documentation'')]"

definition no_dense :: "rag_env \<Rightarrow> string list \<Rightarrow> bool" where
  \<comment> \<open>the encoder answers, and its answer has no dense vectors (absent, or an empty list)\<close>
  "no_dense env texts =
     (case encode_documents env texts of
        Inl e \<Rightarrow> False
      | Inr embeddings \<Rightarrow> (case dense embeddings of None \<Rightarrow> True | Some d \<Rightarrow> d = []))"

definition c7_build_rag_index ::
  "rag_env \<Rightarrow> string \<Rightarrow> string \<Rightarrow> context7 \<Rightarrow> (error + unit) \<times> context7" where
  "c7_build_rag_index env content topic_key s =
     (if content = [] then (Inr (), s)
      else
        let s1 = c7_log (ChunkDocument content) s
        in case chunk_document env content (c7_metadata topic_key) of
             Inl e \<Rightarrow> (Inl e, s1)
           | Inr chunks \<Rightarrow>
               if chunks = [] then (Inr (), s1)
               else
                 (let texts = map chunk_text chunks;
                      s2 = c7_log (EncodeDocuments texts) s1
                  in case encode_documents env texts of
                       Inl e \<Rightarrow> (Inl e, s2)
                     | Inr embeddings \<Rightarrow>
                         (case (case dense embeddings of None \<Rightarrow> [] | Some d \<Rightarrow> d) of
                            [] \<Rightarrow> (Inr (), s2)
                          | v # vs \<Rightarrow>
                              let search_engine =
                                    add_documents (new_engine (length v)) chunks (v # vs)
                                      (sparse embeddings)
                              in (Inr (),
                                  s2\<lparr>c7_rag_indices := (c7_rag_indices s2)(topic_key \<mapsto>
                                     \<lparr>ri_engine = search_engine, ri_chunks = chunks,
                                      ri_ready = True\<rparr>)\<rparr>))))"

definition c7_ensure_rag_ready ::
  "rag_env \<Rightarrow> string \<Rightarrow> string \<Rightarrow> context7 \<Rightarrow> (error + unit) \<times> context7" where
  "c7_ensure_rag_ready env content topic_key s =
     (if c7_building_index s topic_key = Some True then (Inr (), s)
      else
        let s1 = s\<lparr>c7_building_index := (c7_building_index s)(topic_key \<mapsto> True)\<rparr>
        in case c7_build_rag_index env content topic_key s1 of
             (r, s2) \<Rightarrow> (r, s2\<lparr>c7_building_index := (c7_building_index s2)(topic_key \<mapsto> False)\<rparr>))"

definition topic_param :: "string option \<Rightarrow> string option" where
  \<comment> \<open>\<open>if topic: params["topic"] = topic\<close>: an empty topic is not sent\<close>
  "topic_param topic = (if or_else topic [] = [] then None else topic)"

definition c7_cache_hit :: "context7 \<Rightarrow> string option \<Rightarrow> int \<Rightarrow> bool \<Rightarrow> string option" where
  \<comment> \<open>\<open>use_cache and self._cache_enabled and cache_key in self._cache\<close>, with the cached text\<close>
  "c7_cache_hit s topic tokens use_cache =
     (if use_cache \<and> c7_cache_enabled s then c7_cache s (or_else topic ''default'', tokens)
      else None)"

definition c7_fetch ::
  "rag_env \<Rightarrow> (string option \<Rightarrow> int \<Rightarrow> http_outcome) \<Rightarrow> string option \<Rightarrow> int \<Rightarrow> bool
     \<Rightarrow> context7 \<Rightarrow> string \<times> context7" where
  "c7_fetch env http topic tokens use_cache s =
     (let cache_key = (or_else topic ''default'', tokens)
      in case c7_cache_hit s topic tokens use_cache of
           Some cached \<Rightarrow> (cached, s)
         | None \<Rightarrow>
             (let param = topic_param topic
              in case http param tokens of
                   NoClient \<Rightarrow> ([], s)
                 | Failed e \<Rightarrow> ([], c7_log (HttpGet param tokens) s)
                 | Body content \<Rightarrow>
                     (let s1 = c7_log (HttpGet param tokens) s;
                          content_changed = (c7_cache s1 cache_key \<noteq> Some content);
                          s2 = (if c7_cache_enabled s1
                                then s1\<lparr>c7_cache := (c7_cache s1)(cache_key \<mapsto> content)\<rparr>
                                else s1);
                          topic_key = or_else topic ''default''
                      in if content_changed \<or> \<not> c7_index_ready s2 topic_key
                         then (case c7_ensure_rag_ready env content topic_key s2 of
                                 (Inl e, s3) \<Rightarrow> ([], s3)
                               | (Inr u, s3) \<Rightarrow> (content, s3))
                         else (content, s2))))"

definition c7_format_result :: "retrieval_result \<Rightarrow> string \<Rightarrow> string \<Rightarrow> search_result" where
  "c7_format_result result query topic_key =
     (let md = metadata (chunk result)
      in \<lparr>r_path = get_or md ''topic'' topic_key,
          r_type = get_or md ''type'' ''documentation'',
          r_snippet = extract_snippet (chunk_text (chunk result)) query,
          r_score = score result,
          r_full_content = chunk_text (chunk result),
          r_metadata = Some md\<rparr>)"

definition c7_rag_search ::
  "rag_env \<Rightarrow> string \<Rightarrow> string \<Rightarrow> int \<Rightarrow> context7 \<Rightarrow> error + search_result list" where
  "c7_rag_search env query topic_key max_results s =
     (case c7_rag_indices s topic_key of
        None \<Rightarrow> Inr []
      | Some ri \<Rightarrow>
          (case rag_candidates env (ri_engine ri) query max_results of
             Inl e \<Rightarrow> Inl e
           | Inr limited \<Rightarrow> Inr (map (\<lambda>result. c7_format_result result query topic_key) limited)))"

definition c7_search ::
  "rag_env \<Rightarrow> (string option \<Rightarrow> int \<Rightarrow> http_outcome) \<Rightarrow> string \<Rightarrow> string option \<Rightarrow> int
     \<Rightarrow> int \<Rightarrow> bool \<Rightarrow> context7 \<Rightarrow> (error + search_result list) \<times> context7" where
  "c7_search env http query topic tokens max_results use_cache s =
     (if query = [] \<or> length (strip query) < 2 then (Inr [], s)
      else
        case c7_fetch env http topic tokens use_cache s of
          (content, s1) \<Rightarrow>
            if content = [] then (Inr [], s1)
            else
              (let topic_key = or_else topic ''default''
               in case c7_ensure_rag_ready env content topic_key s1 of
                    (Inl e, s2) \<Rightarrow> (Inl e, s2)
                  | (Inr u, s2) \<Rightarrow>
                      if \<not> c7_index_ready s2 topic_key
                      then (Inr (c7_search_keyword query content max_results), s2)
                      else (case c7_rag_search env query topic_key max_results s2 of
                              Inl e \<Rightarrow> (Inr (c7_search_keyword query content max_results), s2)
                            | Inr results \<Rightarrow> (Inr results, s2))))"

section \<open>The remote-file adapter: \<open>GitHubReadmeFetcher\<close>\<close>

record github =
  gh_cache :: "string option"
  gh_cache_enabled :: bool
  gh_rag_ready :: bool
  gh_building_index :: bool
  gh_chunks :: "chunk list"
  gh_search_engine :: "engine option"
  gh_trace :: "event list"

definition gh_log :: "event \<Rightarrow> github \<Rightarrow> github" where
  "gh_log ev s = s\<lparr>gh_trace := gh_trace s @ [ev]\<rparr>"

definition gh_metadata :: metadata where
  "gh_metadata = [(''source'', ''github''), (''path'', ''README.md''), (''type'', ''readme'')]"

definition gh_build_rag_index ::
  "rag_env \<Rightarrow> string \<Rightarrow> github \<Rightarrow> (error + unit) \<times> github" where
  "gh_build_rag_index env content s =
     (if content = [] then (Inr (), s)
      else
        let s1 = gh_log (ChunkDocument content) s
        in case chunk_document env content gh_metadata of
             Inl e \<Rightarrow> (Inl e, s1)
           | Inr chunks \<Rightarrow>
               if chunks = [] then (Inr (), s1)
               else
                 (let texts = map chunk_text chunks;
                      s2 = gh_log (EncodeDocuments texts) s1
                  in case encode_documents env texts of
                       Inl e \<Rightarrow> (Inl e, s2)
                     | Inr embeddings \<Rightarrow>
                         (case (case dense embeddings of None \<Rightarrow> [] | Some d \<Rightarrow> d) of
                            [] \<Rightarrow> (Inr (), s2)
                          | v # vs \<Rightarrow>
                              (Inr (),
                               s2\<lparr>gh_search_engine :=
                                     Some (add_documents (new_engine (length v)) chunks (v # vs)
                                             (sparse embeddings)),
                                   gh_chunks := chunks,
                                   gh_rag_ready := True\<rparr>))))"

definition gh_ensure_rag_ready ::
  "rag_env \<Rightarrow> string \<Rightarrow> github \<Rightarrow> (error + unit) \<times> github" where
  "gh_ensure_rag_ready env content s =
     (if gh_building_index s then (Inr (), s)
      else
        case gh_build_rag_index env content (s\<lparr>gh_building_index := True\<rparr>) of
          (r, s2) \<Rightarrow> (r, s2\<lparr>gh_building_index := False\<rparr>))"

definition gh_cache_hit :: "github \<Rightarrow> bool \<Rightarrow> string option" where
  \<comment> \<open>\<open>use_cache and self._cache_enabled and self._cache is not None\<close>, with the cached text\<close>
  "gh_cache_hit s use_cache = (if use_cache \<and> gh_cache_enabled s then gh_cache s else None)"

definition gh_fetch_readme ::
  "rag_env \<Rightarrow> http_outcome \<Rightarrow> bool \<Rightarrow> github \<Rightarrow> string \<times> github" where
  "gh_fetch_readme env http use_cache s =
     (case gh_cache_hit s use_cache of
        Some cached \<Rightarrow> (cached, s)
      | None \<Rightarrow>
          (case http of
             NoClient \<Rightarrow> ([], s)
           | Failed e \<Rightarrow> ([], gh_log ReadmeGet s)
           | Body content \<Rightarrow>
               (let s1 = gh_log ReadmeGet s;
                    content_changed = (gh_cache s1 \<noteq> Some content);
                    s2 = (if gh_cache_enabled s1 then s1\<lparr>gh_cache := Some content\<rparr> else s1)
                in if content_changed \<or> \<not> gh_rag_ready s2
                   then (case gh_ensure_rag_ready env content s2 of
                           (Inl e, s3) \<Rightarrow> ([], s3)
                         | (Inr u, s3) \<Rightarrow> (content, s3))
                   else (content, s2))))"

definition gh_format_result :: "retrieval_result \<Rightarrow> string \<Rightarrow> search_result" where
  "gh_format_result result query =
     (let md = metadata (chunk result)
      in \<lparr>r_path = get_or md ''path'' ''README.md'',
          r_type = get_or md ''type'' ''readme'',
          r_snippet = extract_snippet (chunk_text (chunk result)) query,
          r_score = score result,
          r_full_content = chunk_text (chunk result),
          r_metadata = Some md\<rparr>)"

definition gh_rag_search ::
  "rag_env \<Rightarrow> string \<Rightarrow> int \<Rightarrow> github \<Rightarrow> error + search_result list" where
  "gh_rag_search env query max_results s =
     (case gh_search_engine s of
        None \<Rightarrow> Inr []
      | Some eng \<Rightarrow>
          (case rag_candidates env eng query max_results of
             Inl e \<Rightarrow> Inl e
           | Inr limited \<Rightarrow> Inr (map (\<lambda>result. gh_format_result result query) limited)))"

definition gh_search ::
  "rag_env \<Rightarrow> http_outcome \<Rightarrow> string \<Rightarrow> int \<Rightarrow> github
     \<Rightarrow> (error + search_result list) \<times> github" where
  "gh_search env http query max_results s =
     (if query = [] \<or> strip query = [] then (Inr [], s)
      else
        case gh_fetch_readme env http True s of
          (readme_content, s1) \<Rightarrow>
            if readme_content = [] then (Inr [], s1)
            else
              (case gh_ensure_rag_ready env readme_content s1 of
                 (Inl e, s2) \<Rightarrow> (Inl e, s2)
               | (Inr u, s2) \<Rightarrow>
                   if \<not> gh_rag_ready s2 \<or> gh_search_engine s2 = None
                   then (Inr (gh_search_keyword query readme_content max_results), s2)
                   else (case gh_rag_search env query max_results s2 of
                           Inl e \<Rightarrow>
                             (Inr (gh_search_keyword query readme_content max_results), s2)
                         | Inr results \<Rightarrow> (Inr results, s2))))"

section \<open>The local-directory adapter: \<open>KnowledgeBase\<close>\<close>

text \<open>
  The knowledge directory is a parameter: whether the path exists, and the markdown files
  found there, each with the text read from it (\<open>None\<close> when reading fails).
\<close>

record knowledge_dir =
  path_exists :: bool
  md_files :: "(string \<times> string option) list"

record knowledge_base =
  kb_use_embeddings :: bool
  kb_index :: "document list"
  kb_initialized :: bool
  kb_rag_ready :: bool
  kb_building_index :: bool
  kb_chunks :: "chunk list"
  kb_search_engine :: "engine option"
  kb_trace :: "event list"

definition kb_log :: "event \<Rightarrow> knowledge_base \<Rightarrow> knowledge_base" where
  "kb_log ev s = s\<lparr>kb_trace := kb_trace s @ [ev]\<rparr>"

fun kb_chunk_documents ::
  "rag_env \<Rightarrow> chunk list \<Rightarrow> document list \<Rightarrow> knowledge_base
     \<Rightarrow> (error + chunk list) \<times> knowledge_base"
where
  \<comment> \<open>the loop \<open>for doc in self.index\<close> of \<open>_build_rag_index\<close>\<close>
  "kb_chunk_documents env chunks [] s = (Inr chunks, s)"
| "kb_chunk_documents env chunks (doc # docs) s =
     (let md = [(''path'', doc_path doc), (''type'', doc_type doc)];
          s1 = kb_log (ChunkDocument (doc_content doc)) s
      in case chunk_document env (doc_content doc) md of
           Inl e \<Rightarrow> (Inl e, s1)
         | Inr doc_chunks \<Rightarrow> kb_chunk_documents env (chunks @ doc_chunks) docs s1)"

definition kb_build_rag_index ::
  "rag_env \<Rightarrow> knowledge_base \<Rightarrow> (error + unit) \<times> knowledge_base" where
  "kb_build_rag_index env s =
     (if kb_rag_ready s \<or> \<not> kb_use_embeddings s then (Inr (), s)
      else
        case kb_chunk_documents env [] (kb_index s) s of
          (Inl e, s1) \<Rightarrow> (Inl e, s1)
        | (Inr chunks, s1) \<Rightarrow>
            if chunks = [] then (Inr (), s1)
            else
              (let texts = map chunk_text chunks;
                   s2 = kb_log (EncodeDocuments texts) s1
               in case encode_documents env texts of
                    Inl e \<Rightarrow> (Inl e, s2)
                  | Inr embeddings \<Rightarrow>
                      (case (case dense embeddings of None \<Rightarrow> [] | Some d \<Rightarrow> d) of
                         [] \<Rightarrow> (Inr (), s2\<lparr>kb_use_embeddings := False\<rparr>)
                       | v # vs \<Rightarrow>
                           (let dim = length v;
                                eng = (case kb_search_engine s2 of
                                         None \<Rightarrow> new_engine dim
                                       | Some e \<Rightarrow> if dimension e \<noteq> dim then new_engine dim else e)
                            in (Inr (),
                                s2\<lparr>kb_search_engine :=
                                      Some (add_documents eng chunks (v # vs) (sparse embeddings)),
                                    kb_chunks := chunks,
                                    kb_rag_ready := True\<rparr>)))))"

definition kb_ensure_rag_ready ::
  "rag_env \<Rightarrow> knowledge_base \<Rightarrow> (error + unit) \<times> knowledge_base" where
  "kb_ensure_rag_ready env s =
     (if \<not> kb_use_embeddings s \<or> kb_rag_ready s \<or> kb_building_index s \<or> kb_index s = []
      then (Inr (), s)
      else
        case kb_build_rag_index env (s\<lparr>kb_building_index := True\<rparr>) of
          (r, s2) \<Rightarrow> (r, s2\<lparr>kb_building_index := False\<rparr>))"

fun kb_read_files ::
  "document list \<Rightarrow> (string \<times> string option) list \<Rightarrow> knowledge_base
     \<Rightarrow> document list \<times> knowledge_base"
where
  \<comment> \<open>the loop \<open>for md_file in self.knowledge_path.glob("*.md")\<close> of \<open>initialize\<close>\<close>
  "kb_read_files indexed_files [] s = (indexed_files, s)"
| "kb_read_files indexed_files ((name, content) # files) s =
     (let s1 = kb_log (ReadFile name) s
      in case content of
           None \<Rightarrow> kb_read_files indexed_files files s1
         | Some c \<Rightarrow>
             if c = [] then kb_read_files indexed_files files s1
             else kb_read_files
                    (indexed_files @ [\<lparr>doc_path = name, doc_content = c, doc_type = ''markdown''\<rparr>])
                    files s1)"

definition kb_initialize ::
  "rag_env \<Rightarrow> knowledge_dir \<Rightarrow> knowledge_base \<Rightarrow> (error + unit) \<times> knowledge_base" where
  "kb_initialize env dir s =
     (if kb_initialized s then (Inr (), s)
      else if \<not> path_exists dir then (Inr (), s\<lparr>kb_initialized := True\<rparr>)
      else
        case kb_read_files [] (md_files dir) s of
          (indexed_files, s1) \<Rightarrow>
            (let s2 = s1\<lparr>kb_index := indexed_files, kb_initialized := True\<rparr>
             in if kb_use_embeddings s2 then kb_ensure_rag_ready env s2 else (Inr (), s2)))"

definition kb_format_result :: "retrieval_result \<Rightarrow> string \<Rightarrow> search_result" where
  "kb_format_result result query =
     (let md = metadata (chunk result)
      in \<lparr>r_path = or_else (map_of md ''path'')
                     (or_else (map_of md ''document'') (chunk_id (chunk result))),
          r_type = get_or md ''type'' ''markdown'',
          r_snippet = extract_snippet (chunk_text (chunk result)) query,
          r_score = score result,
          r_full_content = chunk_text (chunk result),
          r_metadata = Some md\<rparr>)"

definition kb_rag_search ::
  "rag_env \<Rightarrow> string \<Rightarrow> int \<Rightarrow> knowledge_base \<Rightarrow> error + search_result list" where
  "kb_rag_search env query max_results s =
     (case kb_search_engine s of
        None \<Rightarrow> Inr []
      | Some eng \<Rightarrow>
          (case rag_candidates env eng query max_results of
             Inl e \<Rightarrow> Inl e
           | Inr limited \<Rightarrow> Inr (map (\<lambda>result. kb_format_result result query) limited)))"

definition kb_search ::
  "rag_env \<Rightarrow> knowledge_dir \<Rightarrow> string \<Rightarrow> int \<Rightarrow> knowledge_base
     \<Rightarrow> (error + search_result list) \<times> knowledge_base" where
  "kb_search env dir query max_results s =
     (if query = [] \<or> strip query = [] then (Inr [], s)
      else
        case (if \<not> kb_initialized s then kb_initialize env dir s else (Inr (), s)) of
          (Inl e, s1) \<Rightarrow> (Inl e, s1)
        | (Inr u, s1) \<Rightarrow>
            if kb_index s1 = [] then (Inr [], s1)
            else if \<not> kb_use_embeddings s1
            then (Inr (kb_search_keyword (kb_index s1) query max_results), s1)
            else
              (case kb_ensure_rag_ready env s1 of
                 (Inl e, s2) \<Rightarrow> (Inl e, s2)
               | (Inr u, s2) \<Rightarrow>
                   if \<not> kb_rag_ready s2 \<or> kb_search_engine s2 = None
                   then (Inr (kb_search_keyword (kb_index s2) query max_results), s2)
                   else (case kb_rag_search env query max_results s2 of
                           Inr (r # rs) \<Rightarrow> (Inr (r # rs), s2)
                         | _ \<Rightarrow> (Inr (kb_search_keyword (kb_index s2) query max_results), s2))))"

section \<open>Initial states and example inputs\<close>

text \<open>The adapters as their constructors leave them.\<close>

definition c7_new :: context7 where
  "c7_new = \<lparr>c7_cache = Map.empty, c7_cache_enabled = True, c7_rag_indices = Map.empty,
             c7_building_index = Map.empty, c7_trace = []\<rparr>"

definition gh_new :: github where
  "gh_new = \<lparr>gh_cache = None, gh_cache_enabled = True, gh_rag_ready = False,
             gh_building_index = False, gh_chunks = [], gh_search_engine = None,
             gh_trace = []\<rparr>"

definition kb_new :: "bool \<Rightarrow> knowledge_base" where
  "kb_new use_embeddings =
     \<lparr>kb_use_embeddings = use_embeddings, kb_index = [], kb_initialized = False,
      kb_rag_ready = False, kb_building_index = False, kb_chunks = [],
      kb_search_engine = None, kb_trace = []\<rparr>"

text \<open>
  Example collaborators: a chunker that returns the whole text as one chunk, an encoder
  that gives every text the vector \<open>[1]\<close>, a query optimizer that returns the query alone,
  and an engine that returns every chunk it holds with score 1. The variants differ in the
  document encoder only: one returns an empty list of dense vectors, one raises.
\<close>

definition parole_text :: string where
  "parole_text = ''Parole is supervision after release.''"

definition whole_chunk :: "string \<Rightarrow> metadata \<Rightarrow> chunk" where
  "whole_chunk content md =
     \<lparr>chunk_id = ''chunk-0'', fingerprint = Some content, chunk_text = content, metadata = md\<rparr>"

definition unit_vectors :: "string list \<Rightarrow> embeddings" where
  "unit_vectors texts = \<lparr>dense = Some (map (\<lambda>t. [1]) texts), sparse = None\<rparr>"

definition all_chunks :: "engine \<Rightarrow> retrieval_result list" where
  "all_chunks eng =
     map (\<lambda>c. \<lparr>chunk = c, score = 1\<rparr>) (concat (map fst (batches eng)))"

definition env_ok :: rag_env where
  "env_ok =
     \<lparr>chunk_document = (\<lambda>content md. Inr [whole_chunk content md]),
      encode_documents = (\<lambda>texts. Inr (unit_vectors texts)),
      encode_queries = (\<lambda>texts. Inr (unit_vectors texts)),
      enhance_query = (\<lambda>query. Inr [query]),
      engine_search = (\<lambda>eng query dv sv k final_k. Inr (all_chunks eng))\<rparr>"

definition env_no_dense :: rag_env where
  "env_no_dense = env_ok\<lparr>encode_documents := (\<lambda>texts. Inr \<lparr>dense = Some [], sparse = None\<rparr>)\<rparr>"


definition http_parole :: "string option \<Rightarrow> int \<Rightarrow> http_outcome" where
  \<comment> \<open>a proxy that answers every request with the same text\<close>
  "http_parole param tokens = Body parole_text"

definition http_down :: "string option \<Rightarrow> int \<Rightarrow> http_outcome" where
  \<comment> \<open>a proxy that cannot be reached\<close>
  "http_down param tokens = Failed ClientError"

definition parole_doc :: document where
  "parole_doc = \<lparr>doc_path = ''parole.md'', doc_content = parole_text, doc_type = ''markdown''\<rparr>"

definition parole_dir :: knowledge_dir where
  "parole_dir = \<lparr>path_exists = True, md_files = [(''parole.md'', Some parole_text)]\<rparr>"

definition kb_loaded :: "bool \<Rightarrow> knowledge_base" where
  \<comment> \<open>a knowledge base that has read \<open>parole.md\<close> and has built no index\<close>
  "kb_loaded use_embeddings =
     (kb_new use_embeddings)\<lparr>kb_index := [parole_doc], kb_initialized := True\<rparr>"

definition c7_searched :: context7 where
  \<comment> \<open>\<open>Context7Search\<close> after one search for \<open>parole\<close> against \<open>http_parole\<close>\<close>
  "c7_searched = snd (c7_search env_ok http_parole ''parole'' None 10000 5 True c7_new)"

text \<open>
  A world in which the encoder has dense vectors for \<open>parole_text\<close> only, and the proxy
  has moved on to another text.
\<close>

definition jail_text :: string where
  "jail_text = ''Jail time is served in a cell.''"

definition env_partial :: rag_env where
  "env_partial =
     env_ok\<lparr>encode_documents :=
       (\<lambda>texts. if texts = [parole_text] then Inr (unit_vectors texts)
                else Inr \<lparr>dense = Some [], sparse = None\<rparr>)\<rparr>"

definition http_jail :: "string option \<Rightarrow> int \<Rightarrow> http_outcome" where
  "http_jail param tokens = Body jail_text"

definition c7_indexed :: context7 where
  \<comment> \<open>\<open>Context7Search\<close> after fetching \<open>parole_text\<close>: the index of \<open>default\<close> is ready\<close>
  "c7_indexed = snd (c7_fetch env_partial http_parole None 10000 True c7_new)"

section \<open>Builds that receive no dense vectors\<close>

text \<open>
  The situation of an index build whose chunking yields chunks and whose encoder then
  answers without dense vectors, for each adapter.
\<close>

definition c7_dense_missing :: "rag_env \<Rightarrow> string \<Rightarrow> string \<Rightarrow> bool" where
  "c7_dense_missing env content topic_key =
     (content \<noteq> [] \<and>
      (case chunk_document env content (c7_metadata topic_key) of
         Inl e \<Rightarrow> False
       | Inr chunks \<Rightarrow> chunks \<noteq> [] \<and> no_dense env (map chunk_text chunks)))"

definition gh_dense_missing :: "rag_env \<Rightarrow> string \<Rightarrow> bool" where
  "gh_dense_missing env content =
     (content \<noteq> [] \<and>
      (case chunk_document env content gh_metadata of
         Inl e \<Rightarrow> False
       | Inr chunks \<Rightarrow> chunks \<noteq> [] \<and> no_dense env (map chunk_text chunks)))"

definition kb_dense_missing :: "rag_env \<Rightarrow> knowledge_base \<Rightarrow> bool" where
  "kb_dense_missing env s =
     (case fst (kb_chunk_documents env [] (kb_index s) s) of
        Inl e \<Rightarrow> False
      | Inr chunks \<Rightarrow> chunks \<noteq> [] \<and> no_dense env (map chunk_text chunks))"

section \<open>Invariants and the specification's score\<close>

text \<open>
  The invariant of the dictionary in \<open>_deduplicate_results\<close>: its keys are distinct, and
  each value is filed under its own key.
\<close>

definition keyed :: "(string \<times> retrieval_result) list \<Rightarrow> bool" where
  "keyed al = (distinct (map fst al) \<and> list_all (\<lambda>p. dedup_key (snd p) = fst p) al)"



text \<open>Three candidates, two of them with the same fingerprint.\<close>

definition low_result :: retrieval_result where
  "low_result =
     \<lparr>chunk = \<lparr>chunk_id = ''chunk-1'', fingerprint = Some ''fp-a'', chunk_text = ''one'',
               metadata = []\<rparr>,
      score = 1\<rparr>"

definition other_result :: retrieval_result where
  "other_result =
     \<lparr>chunk = \<lparr>chunk_id = ''chunk-2'', fingerprint = None, chunk_text = ''two'',
               metadata = []\<rparr>,
      score = 2\<rparr>"

definition high_result :: retrieval_result where
  "high_result =
     \<lparr>chunk = \<lparr>chunk_id = ''chunk-3'', fingerprint = Some ''fp-a'', chunk_text = ''three'',
               metadata = []\<rparr>,
      score = 3\<rparr>"

section \<open>Evaluation rules for the examples\<close>


section \<open>The keyword fallback of the remote adapters\<close>

lemma term_sum_nonneg: "0 \<le> sum_list (map (\<lambda>term. int (count content term)) terms)"
  by (rule sum_list_nonneg) auto

lemma remote_score_nonneg: "0 \<le> remote_score query content"
  using term_sum_nonneg [of "lower content" "split_ws (lower query)"]
  by (simp add: remote_score_def Let_def)

lemma parole_remote_score: "remote_score ''parole'' parole_text = 11"
  by code_simp

text \<open>
  Claim C10. The keyword fallback of \<open>Context7Search\<close> and of \<open>GitHubReadmeFetcher\<close>
  scores the whole fetched document as one candidate. Whatever \<open>max_results\<close> is, the
  result has at most one element: none when the score is zero, and otherwise exactly one,
  whose \<open>full_content\<close> is the first 2000 characters of the document and whose score is
  positive.
\<close>

theorem remote_keyword_single_candidate:
  "c7_search_keyword query content max_results =
     (if remote_score query content = 0 then []
      else [\<lparr>r_path = ''Context7'', r_type = ''documentation'',
             r_snippet = extract_snippet content (lower query),
             r_score = of_int (remote_score query content),
             r_full_content = take 2000 content,
             r_metadata = Some [(''source'', ''context7'')]\<rparr>])
   \<and> gh_search_keyword query content max_results =
     (if remote_score query content = 0 then []
      else [\<lparr>r_path = ''README.md'', r_type = ''readme'',
             r_snippet = extract_snippet content (lower query),
             r_score = of_int (remote_score query content),
             r_full_content = take 2000 content,
             r_metadata = Some [(''source'', ''github'')]\<rparr>])
   \<and> length (c7_search_keyword query content max_results) \<le> 1
   \<and> length (gh_search_keyword query content max_results) \<le> 1
   \<and> (\<forall>r \<in> set (c7_search_keyword query content max_results)
              \<union> set (gh_search_keyword query content max_results).
         length (r_full_content r) \<le> 2000 \<and> 0 < r_score r)"
  using remote_score_nonneg [of query content]
  by (auto simp: c7_search_keyword_def gh_search_keyword_def Let_def)

theorem remote_keyword_single_candidate_witness:
  "remote_score ''parole'' parole_text = 11
   \<and> length (c7_search_keyword ''parole'' parole_text 0) = 1
   \<and> length (gh_search_keyword ''parole'' parole_text 0) = 1
   \<and> c7_search_keyword ''parole'' ''jail'' 5 = []
   \<and> gh_search_keyword ''parole'' ''jail'' 5 = []"
proof -
  have z: "remote_score ''parole'' ''jail'' = 0"
    by code_simp
  from remote_keyword_single_candidate [of "''parole''" parole_text 0]
       remote_keyword_single_candidate [of "''parole''" "''jail''" 5]
       parole_remote_score z
  show ?thesis by simp
qed

section \<open>Single-flight index builds\<close>



section \<open>Fetching, caching and short queries\<close>

lemma c7_build_frame:
  "c7_cache (snd (c7_build_rag_index env content k s)) = c7_cache s
   \<and> c7_cache_enabled (snd (c7_build_rag_index env content k s)) = c7_cache_enabled s
   \<and> c7_building_index (snd (c7_build_rag_index env content k s)) = c7_building_index s"
  by (simp add: c7_build_rag_index_def c7_log_def Let_def split: sum.splits list.splits option.splits)

lemma c7_ensure_frame:
  "c7_cache (snd (c7_ensure_rag_ready env content k s)) = c7_cache s
   \<and> c7_cache_enabled (snd (c7_ensure_rag_ready env content k s)) = c7_cache_enabled s"
  using c7_build_frame [of env content k "s\<lparr>c7_building_index := (c7_building_index s)(k \<mapsto> True)\<rparr>"]
  by (auto simp: c7_ensure_rag_ready_def Let_def split: prod.splits)

lemma gh_build_frame:
  "gh_cache (snd (gh_build_rag_index env content s)) = gh_cache s
   \<and> gh_cache_enabled (snd (gh_build_rag_index env content s)) = gh_cache_enabled s"
  by (simp add: gh_build_rag_index_def gh_log_def Let_def split: sum.splits list.splits option.splits)

lemma gh_ensure_frame:
  "gh_cache (snd (gh_ensure_rag_ready env content s)) = gh_cache s
   \<and> gh_cache_enabled (snd (gh_ensure_rag_ready env content s)) = gh_cache_enabled s"
  using gh_build_frame [of env content "s\<lparr>gh_building_index := True\<rparr>"]
  by (auto simp: gh_ensure_rag_ready_def Let_def split: prod.splits)

lemma c7_fetch_hit:
  "c7_cache_hit s topic tokens use_cache = Some t \<Longrightarrow>
   c7_fetch env http topic tokens use_cache s = (t, s)"
  by (simp add: c7_fetch_def)

lemma gh_fetch_hit:
  "gh_cache_hit g use_cache = Some t \<Longrightarrow> gh_fetch_readme env h use_cache g = (t, g)"
  by (simp add: gh_fetch_readme_def)

lemma c7_fetch_caches:
  assumes "c7_cache_enabled s" and "fst (c7_fetch env http topic tokens use_cache s) \<noteq> []"
  shows "c7_cache_hit (snd (c7_fetch env http topic tokens use_cache s)) topic tokens True
           = Some (fst (c7_fetch env http topic tokens use_cache s))"
proof (cases "c7_cache_hit s topic tokens use_cache")
  case (Some t)
  then show ?thesis using assms(1)
    by (auto simp: c7_fetch_def c7_cache_hit_def split: if_splits)
next
  case None
  show ?thesis
  proof (cases "http (topic_param topic) tokens")
    case NoClient
    with None assms(2) show ?thesis by (simp add: c7_fetch_def)
  next
    case (Failed e)
    with None assms(2) show ?thesis by (simp add: c7_fetch_def)
  next
    case (Body content)
    let ?k = "or_else topic ''default''"
    let ?s2 = "(c7_log (HttpGet (topic_param topic) tokens) s)
                 \<lparr>c7_cache := (c7_cache s)((?k, tokens) \<mapsto> content)\<rparr>"
    have en: "c7_cache_enabled ?s2" and ca: "c7_cache ?s2 (?k, tokens) = Some content"
      using assms(1) by (simp_all add: c7_log_def)
    from None Body assms(1) assms(2) en ca c7_ensure_frame [of env content ?k ?s2]
    show ?thesis
      by (auto simp: c7_fetch_def Let_def c7_cache_hit_def c7_log_def
               split: prod.splits sum.splits if_splits)
  qed
qed

lemma gh_fetch_caches:
  assumes "gh_cache_enabled s" and "fst (gh_fetch_readme env h use_cache s) \<noteq> []"
  shows "gh_cache_hit (snd (gh_fetch_readme env h use_cache s)) True
           = Some (fst (gh_fetch_readme env h use_cache s))"
proof (cases "gh_cache_hit s use_cache")
  case (Some t)
  then show ?thesis using assms(1)
    by (auto simp: gh_fetch_readme_def gh_cache_hit_def split: if_splits)
next
  case None
  show ?thesis
  proof (cases h)
    case NoClient
    with None assms(2) show ?thesis by (simp add: gh_fetch_readme_def)
  next
    case (Failed e)
    with None assms(2) show ?thesis by (simp add: gh_fetch_readme_def)
  next
    case (Body content)
    let ?s2 = "(gh_log ReadmeGet s)\<lparr>gh_cache := Some content\<rparr>"
    from None Body assms(1) assms(2) gh_ensure_frame [of env content ?s2]
    show ?thesis
      by (auto simp: gh_fetch_readme_def Let_def gh_cache_hit_def gh_log_def
               split: prod.splits sum.splits if_splits)
  qed
qed

text \<open>
  Claim C5, as amended. In both remote adapters a cache hit returns the cached text and
  leaves the adapter as it was: nothing is retrieved and no freshness is checked. And with
  caching enabled, whenever a fetch returns text that is not empty, the next fetch for the
  same key returns the identical text from the cache, again without retrieval and without
  any change of state, whatever the remote side would answer then.
\<close>

theorem fetch_twice_cached:
  "(c7_cache_hit s topic tokens use_cache = Some t \<longrightarrow>
      c7_fetch env http topic tokens use_cache s = (t, s))
   \<and> (c7_cache_enabled s \<and> fst (c7_fetch env http topic tokens use_cache s) \<noteq> [] \<longrightarrow>
      c7_fetch env http' topic tokens True (snd (c7_fetch env http topic tokens use_cache s))
        = c7_fetch env http topic tokens use_cache s)
   \<and> (gh_cache_hit g use_cache = Some t \<longrightarrow> gh_fetch_readme env h use_cache g = (t, g))
   \<and> (gh_cache_enabled g \<and> fst (gh_fetch_readme env h use_cache g) \<noteq> [] \<longrightarrow>
      gh_fetch_readme env h' True (snd (gh_fetch_readme env h use_cache g))
        = gh_fetch_readme env h use_cache g)"
  using c7_fetch_hit [OF c7_fetch_caches, of s env http topic tokens use_cache env http']
        gh_fetch_hit [OF gh_fetch_caches, of g env h use_cache env h']
  by (simp add: c7_fetch_hit gh_fetch_hit)

lemma c7_fetch_failure:
  assumes "c7_cache_hit s topic tokens use_cache = None"
    and "\<forall>c. http (topic_param topic) tokens \<noteq> Body c"
  shows "fst (c7_fetch env http topic tokens use_cache s) = []"
proof (cases "http (topic_param topic) tokens")
  case (Body c)
  with assms(2) show ?thesis by simp
qed (simp_all add: c7_fetch_def assms(1))

lemma gh_fetch_failure:
  assumes "gh_cache_hit g use_cache = None" and "\<forall>c. h \<noteq> Body c"
  shows "fst (gh_fetch_readme env h use_cache g) = []"
proof (cases h)
  case (Body c)
  with assms(2) show ?thesis by simp
qed (simp_all add: gh_fetch_readme_def assms(1))

lemma c7_search_empty:
  "fst (c7_fetch env http topic tokens use_cache s) = [] \<Longrightarrow>
   fst (c7_search env http query topic tokens max_results use_cache s) = Inr []"
  by (cases "c7_fetch env http topic tokens use_cache s") (simp add: c7_search_def)

lemma gh_search_empty:
  "fst (gh_fetch_readme env h True g) = [] \<Longrightarrow>
   fst (gh_search env h query max_results g) = Inr []"
  by (cases "gh_fetch_readme env h True g") (simp add: gh_search_def)

text \<open>
  Claim C8. In both remote adapters a fetch that misses the cache and whose retrieval
  fails (no client, a client error or any other exception) returns the empty string: the
  result of a fetch is a string, never an exception. A search whose fetch returned the
  empty string returns the empty result list.
\<close>

theorem fetch_failure_is_empty:
  "(c7_cache_hit s topic tokens use_cache = None \<and> (\<forall>c. http (topic_param topic) tokens \<noteq> Body c)
      \<longrightarrow> fst (c7_fetch env http topic tokens use_cache s) = [])
   \<and> (fst (c7_fetch env http topic tokens use_cache s) = []
      \<longrightarrow> fst (c7_search env http query topic tokens max_results use_cache s) = Inr [])
   \<and> (gh_cache_hit g use_cache = None \<and> (\<forall>c. h \<noteq> Body c)
      \<longrightarrow> fst (gh_fetch_readme env h use_cache g) = [])
   \<and> (fst (gh_fetch_readme env h True g) = []
      \<longrightarrow> fst (gh_search env h query max_results g) = Inr [])"
  using c7_fetch_failure [of s topic tokens use_cache http env]
        c7_search_empty [of env http topic tokens use_cache s query max_results]
        gh_fetch_failure [of g use_cache h env]
        gh_search_empty [of env h g query max_results]
  by blast

text \<open>
  Claim C3, as amended. \<open>Context7Search.search\<close> returns the empty list and leaves the
  adapter untouched (nothing is fetched, built or scanned) for every query whose trimmed
  length is below 2. \<open>GitHubReadmeFetcher.search\<close> and \<open>KnowledgeBase.search\<close> do so for
  every query that is empty after trimming.
\<close>

theorem short_query_rejected:
  "(length (strip query) < 2 \<longrightarrow>
      c7_search env http query topic tokens max_results use_cache s = (Inr [], s))
   \<and> (strip query = [] \<longrightarrow> gh_search env h query max_results g = (Inr [], g))
   \<and> (strip query = [] \<longrightarrow> kb_search env dir query max_results b = (Inr [], b))"
  by (simp add: c7_search_def gh_search_def kb_search_def)

subsection \<open>The same properties on the examples\<close>

lemma strip_a: "length (strip ''a'') < 2" by code_simp
lemma strip_blank: "strip ''  '' = []" by code_simp

theorem short_query_rejected_witness:
  "c7_search env_ok http_parole ''a'' None 10000 5 True c7_new = (Inr [], c7_new)
   \<and> gh_search env_ok (Body parole_text) ''  '' 5 gh_new = (Inr [], gh_new)
   \<and> kb_search env_ok parole_dir ''  '' 5 (kb_new True) = (Inr [], kb_new True)"
  using short_query_rejected [of "''a''" env_ok http_parole None 10000 5 True c7_new]
        short_query_rejected [of "''  ''" env_ok http_parole None 10000 5 True c7_new
                                 "Body parole_text" gh_new parole_dir "kb_new True"]
        strip_a strip_blank
  by blast

theorem short_query_counterexample:
  "length (strip ''a'') < 2
   \<and> fst (kb_search env_ok parole_dir ''a'' 5 (kb_loaded False)) \<noteq> Inr []
   \<and> fst (gh_search env_ok (Body parole_text) ''a'' 5 gh_new) \<noteq> Inr []
   \<and> gh_trace (snd (gh_search env_ok (Body parole_text) ''a'' 5 gh_new)) \<noteq> []"
  by code_simp

theorem fetch_twice_counterexample:
  "c7_cache_enabled c7_new
   \<and> c7_trace (snd (c7_fetch env_ok http_down None 10000 True
                  (snd (c7_fetch env_ok http_down None 10000 True c7_new))))
       = [HttpGet None 10000, HttpGet None 10000]"
  by code_simp

lemma first_fetch: "fst (c7_fetch env_ok http_parole None 10000 True c7_new) = parole_text"
  by code_simp
lemma first_fetch_gh: "fst (gh_fetch_readme env_ok (Body parole_text) True gh_new) = parole_text"
  by code_simp
lemma parole_nonempty: "parole_text \<noteq> []" by (simp add: parole_text_def)


theorem fetch_twice_cached_witness:
  "fst (c7_fetch env_ok http_parole None 10000 True c7_new) = parole_text
   \<and> c7_fetch env_ok http_down None 10000 True
        (snd (c7_fetch env_ok http_parole None 10000 True c7_new))
       = c7_fetch env_ok http_parole None 10000 True c7_new
   \<and> fst (gh_fetch_readme env_ok (Body parole_text) True gh_new) = parole_text
   \<and> gh_fetch_readme env_ok (Failed ClientError) True
        (snd (gh_fetch_readme env_ok (Body parole_text) True gh_new))
       = gh_fetch_readme env_ok (Body parole_text) True gh_new
   \<and> c7_fetch env_ok http_down None 10000 True
        (c7_new\<lparr>c7_cache := [(''default'', 10000) \<mapsto> ''cached'']\<rparr>)
       = (''cached'', c7_new\<lparr>c7_cache := [(''default'', 10000) \<mapsto> ''cached'']\<rparr>)
   \<and> gh_fetch_readme env_ok (Failed ClientError) True (gh_new\<lparr>gh_cache := Some ''cached''\<rparr>)
       = (''cached'', gh_new\<lparr>gh_cache := Some ''cached''\<rparr>)"
proof -
  let ?c = "c7_new\<lparr>c7_cache := [(''default'', 10000) \<mapsto> ''cached'']\<rparr>"
  let ?g = "gh_new\<lparr>gh_cache := Some ''cached''\<rparr>"
  have e1: "c7_cache_enabled c7_new" and e2: "gh_cache_enabled gh_new"
    by (simp_all add: c7_new_def gh_new_def)
  have h1: "c7_cache_hit ?c None 10000 True = Some ''cached''"
    by (simp add: c7_cache_hit_def c7_new_def or_else_def)
  have h2: "gh_cache_hit ?g True = Some ''cached''"
    by (simp add: gh_cache_hit_def gh_new_def)
  from fetch_twice_cached
         [of c7_new None 10000 True parole_text env_ok http_parole http_down gh_new
             "Body parole_text" "Failed ClientError"]
       e1 e2 first_fetch first_fetch_gh parole_nonempty
  have a: "c7_fetch env_ok http_down None 10000 True
             (snd (c7_fetch env_ok http_parole None 10000 True c7_new))
           = c7_fetch env_ok http_parole None 10000 True c7_new"
    and b: "gh_fetch_readme env_ok (Failed ClientError) True
              (snd (gh_fetch_readme env_ok (Body parole_text) True gh_new))
            = gh_fetch_readme env_ok (Body parole_text) True gh_new"
    by simp_all
  from fetch_twice_cached
         [of ?c None 10000 True "''cached''" env_ok http_down http_down ?g
             "Failed ClientError" "Failed ClientError"] h1 h2
  have c: "c7_fetch env_ok http_down None 10000 True ?c = (''cached'', ?c)"
    and d: "gh_fetch_readme env_ok (Failed ClientError) True ?g = (''cached'', ?g)"
    by blast+
  from a b c d first_fetch first_fetch_gh show ?thesis by blast
qed

theorem fetch_failure_is_empty_witness:
  "fst (c7_fetch env_ok http_down None 10000 True c7_new) = []
   \<and> fst (c7_search env_ok http_down ''parole'' None 10000 5 True c7_new) = Inr []
   \<and> fst (gh_fetch_readme env_ok (Failed ClientError) True gh_new) = []
   \<and> fst (gh_search env_ok (Failed ClientError) ''parole'' 5 gh_new) = Inr []"
proof -
  have h1: "c7_cache_hit c7_new None 10000 True = None"
    by (simp add: c7_cache_hit_def c7_new_def)
  have h2: "\<forall>c. http_down (topic_param None) 10000 \<noteq> Body c"
    by (simp add: http_down_def)
  have h3: "gh_cache_hit gh_new True = None"
    by (simp add: gh_cache_hit_def gh_new_def)
  have h4: "\<forall>c. Failed ClientError \<noteq> Body c"
    by simp
  from fetch_failure_is_empty
         [of c7_new None 10000 True http_down env_ok "''parole''" 5 gh_new "Failed ClientError"]
       h1 h2 h3 h4
  show ?thesis by blast
qed

section \<open>Snippet length at the boundary\<close>

text \<open>
  Claim C4. Snippet extraction returns the window around the first match verbatim when it
  is short, and cuts it to 500 characters followed by \<open>...\<close> when it is long. The claim
  puts a window of exactly 500 characters on the verbatim side. The code compares with
  \<open>len(snippet) < 500\<close>: for a content of 500 letters \<open>a\<close> and the query \<open>a\<close> the window
  is the whole content, nothing is cut, and the marker is appended all the same.
\<close>

theorem snippet_of_500_characters:
  "extract_snippet (replicate 500 CHR ''a'') ''a'' = replicate 500 CHR ''a'' @ ''...''
   \<and> length (extract_snippet (replicate 500 CHR ''a'') ''a'') = 503"
  by code_simp

section \<open>Rebuilds of a ready index\<close>

text \<open>
  Claim C1. A rebuild is to happen only when the fetched content differs from the cached
  one or no ready index exists. In \<open>Context7Search\<close> the guard is in \<open>fetch\<close> only;
  \<open>search\<close> calls \<open>_ensure_rag_ready\<close> after every fetch, and the build has no guard of
  its own. After one search the index of \<open>default\<close> is ready and the text is cached. A
  second fetch that retrieves the identical text does not rebuild, but the search around
  it chunks and encodes the text again, and so does a search served from the cache.
\<close>

theorem search_rebuilds_ready_index:
  "c7_index_ready c7_searched ''default''
   \<and> c7_cache c7_searched (''default'', 10000) = Some parole_text
   \<and> fst (c7_fetch env_ok http_parole None 10000 False c7_searched) = parole_text
   \<and> c7_trace (snd (c7_fetch env_ok http_parole None 10000 False c7_searched))
       = c7_trace c7_searched @ [HttpGet None 10000]
   \<and> c7_trace (snd (c7_search env_ok http_parole ''parole'' None 10000 5 False c7_searched))
       = c7_trace c7_searched
         @ [HttpGet None 10000, ChunkDocument parole_text, EncodeDocuments [parole_text]]
   \<and> c7_trace (snd (c7_search env_ok http_parole ''parole'' None 10000 5 True c7_searched))
       = c7_trace c7_searched @ [ChunkDocument parole_text, EncodeDocuments [parole_text]]"
  by code_simp

section \<open>A build without dense vectors\<close>

lemma c7_build_no_dense:
  assumes "c7_dense_missing env content k"
  shows "fst (c7_build_rag_index env content k s) = Inr ()"
    and "c7_rag_indices (snd (c7_build_rag_index env content k s)) = c7_rag_indices s"
  using assms
  by (auto simp: c7_dense_missing_def c7_build_rag_index_def no_dense_def c7_log_def Let_def
           split: sum.splits option.splits list.splits)

lemma c7_ensure_no_dense:
  assumes "c7_dense_missing env content k"
  shows "fst (c7_ensure_rag_ready env content k s) = Inr ()"
    and "c7_rag_indices (snd (c7_ensure_rag_ready env content k s)) = c7_rag_indices s"
  using c7_build_no_dense [OF assms, of "s\<lparr>c7_building_index := (c7_building_index s)(k \<mapsto> True)\<rparr>"]
  by (auto simp: c7_ensure_rag_ready_def Let_def split: prod.splits)

lemma c7_index_ready_cong:
  "c7_rag_indices s' = c7_rag_indices s \<Longrightarrow> c7_index_ready s' k = c7_index_ready s k"
  by (simp add: c7_index_ready_def)

lemma c7_fetch_no_dense:
  assumes "fst (c7_fetch env http topic tokens use_cache s) = content"
    and "c7_dense_missing env content (or_else topic ''default'')"
  shows "c7_rag_indices (snd (c7_fetch env http topic tokens use_cache s)) = c7_rag_indices s"
proof (cases "c7_cache_hit s topic tokens use_cache")
  case (Some t)
  then show ?thesis by (simp add: c7_fetch_def)
next
  case None
  have ne: "content \<noteq> []" using assms(2) by (simp add: c7_dense_missing_def)
  show ?thesis
  proof (cases "http (topic_param topic) tokens")
    case NoClient
    with None show ?thesis by (simp add: c7_fetch_def)
  next
    case (Failed e)
    with None show ?thesis by (simp add: c7_fetch_def c7_log_def)
  next
    case (Body c)
    let ?k = "or_else topic ''default''"
    let ?s1 = "c7_log (HttpGet (topic_param topic) tokens) s"
    let ?s2 = "if c7_cache_enabled ?s1
               then ?s1\<lparr>c7_cache := (c7_cache ?s1)((?k, tokens) \<mapsto> c)\<rparr> else ?s1"
    have s2: "c7_rag_indices ?s2 = c7_rag_indices s" by (simp add: c7_log_def)
    show ?thesis
    proof (cases "c7_cache ?s1 (?k, tokens) \<noteq> Some c \<or> \<not> c7_index_ready ?s2 ?k")
      case False
      with None Body s2 show ?thesis by (simp add: c7_fetch_def Let_def)
    next
      case True
      obtain r s3 where e: "c7_ensure_rag_ready env c ?k ?s2 = (r, s3)"
        by (cases "c7_ensure_rag_ready env c ?k ?s2")
      from None Body True e have f: "c7_fetch env http topic tokens use_cache s
            = (case r of Inl e \<Rightarrow> ([], s3) | Inr u \<Rightarrow> (c, s3))"
        by (simp add: c7_fetch_def Let_def split: sum.splits)
      with assms(1) ne have "c = content" by (cases r) auto
      with assms(2) c7_ensure_no_dense(2) [of env c ?k ?s2] e s2
      have "c7_rag_indices s3 = c7_rag_indices s" by simp
      with f show ?thesis by (cases r) auto
    qed
  qed
qed

lemma c7_search_no_dense:
  assumes "2 \<le> length (strip query)"
    and "fst (c7_fetch env http topic tokens use_cache s) = content"
    and "c7_dense_missing env content (or_else topic ''default'')"
    and "\<not> c7_index_ready s (or_else topic ''default'')"
  shows "fst (c7_search env http query topic tokens max_results use_cache s)
           = Inr (c7_search_keyword query content max_results)"
    and "\<not> c7_index_ready (snd (c7_search env http query topic tokens max_results use_cache s))
             (or_else topic ''default'')"
proof -
  let ?k = "or_else topic ''default''"
  obtain s1 where f: "c7_fetch env http topic tokens use_cache s = (content, s1)"
    using assms(2) by (cases "c7_fetch env http topic tokens use_cache s") auto
  have ne: "content \<noteq> []" using assms(3) by (simp add: c7_dense_missing_def)
  have q: "query \<noteq> []" using assms(1) by (auto simp: strip_def)
  from c7_fetch_no_dense [OF assms(2) assms(3)] f
  have i1: "c7_rag_indices s1 = c7_rag_indices s" by simp
  obtain r s2 where e: "c7_ensure_rag_ready env content ?k s1 = (r, s2)"
    by (cases "c7_ensure_rag_ready env content ?k s1")
  from c7_ensure_no_dense [OF assms(3), of s1] e
  have r: "r = Inr ()" and i2: "c7_rag_indices s2 = c7_rag_indices s1" by simp_all
  from i1 i2 assms(4) have nr: "\<not> c7_index_ready s2 ?k"
    by (simp add: c7_index_ready_def)
  from assms(1) q f ne e r nr
  have "c7_search env http query topic tokens max_results use_cache s
          = (Inr (c7_search_keyword query content max_results), s2)"
    by (simp add: c7_search_def Let_def)
  with nr show "fst (c7_search env http query topic tokens max_results use_cache s)
           = Inr (c7_search_keyword query content max_results)"
    and "\<not> c7_index_ready (snd (c7_search env http query topic tokens max_results use_cache s))
             (or_else topic ''default'')"
    by simp_all
qed


lemma gh_build_no_dense:
  assumes "gh_dense_missing env content"
  shows "fst (gh_build_rag_index env content s) = Inr ()"
    and "gh_rag_ready (snd (gh_build_rag_index env content s)) = gh_rag_ready s"
    and "gh_search_engine (snd (gh_build_rag_index env content s)) = gh_search_engine s"
  using assms
  by (auto simp: gh_dense_missing_def gh_build_rag_index_def no_dense_def gh_log_def Let_def
           split: sum.splits option.splits list.splits)

lemma gh_ensure_no_dense:
  assumes "gh_dense_missing env content"
  shows "fst (gh_ensure_rag_ready env content s) = Inr ()"
    and "gh_rag_ready (snd (gh_ensure_rag_ready env content s)) = gh_rag_ready s"
  using gh_build_no_dense [OF assms, of "s\<lparr>gh_building_index := True\<rparr>"]
  by (auto simp: gh_ensure_rag_ready_def Let_def split: prod.splits)

lemma gh_fetch_no_dense:
  assumes "fst (gh_fetch_readme env h use_cache s) = content"
    and "gh_dense_missing env content"
  shows "gh_rag_ready (snd (gh_fetch_readme env h use_cache s)) = gh_rag_ready s"
proof (cases "gh_cache_hit s use_cache")
  case (Some t)
  then show ?thesis by (simp add: gh_fetch_readme_def)
next
  case None
  have ne: "content \<noteq> []" using assms(2) by (simp add: gh_dense_missing_def)
  show ?thesis
  proof (cases h)
    case NoClient
    with None show ?thesis by (simp add: gh_fetch_readme_def)
  next
    case (Failed e)
    with None show ?thesis by (simp add: gh_fetch_readme_def gh_log_def)
  next
    case (Body c)
    let ?s1 = "gh_log ReadmeGet s"
    let ?s2 = "if gh_cache_enabled ?s1 then ?s1\<lparr>gh_cache := Some c\<rparr> else ?s1"
    have s2: "gh_rag_ready ?s2 = gh_rag_ready s" by (simp add: gh_log_def)
    show ?thesis
    proof (cases "gh_cache ?s1 \<noteq> Some c \<or> \<not> gh_rag_ready ?s2")
      case False
      with None Body s2 show ?thesis by (simp add: gh_fetch_readme_def Let_def)
    next
      case True
      obtain r s3 where e: "gh_ensure_rag_ready env c ?s2 = (r, s3)"
        by (cases "gh_ensure_rag_ready env c ?s2")
      from None Body True e have f: "gh_fetch_readme env h use_cache s
            = (case r of Inl e \<Rightarrow> ([], s3) | Inr u \<Rightarrow> (c, s3))"
        by (simp add: gh_fetch_readme_def Let_def split: sum.splits)
      with assms(1) ne have "c = content" by (cases r) auto
      with assms(2) gh_ensure_no_dense(2) [of env c ?s2] e s2
      have "gh_rag_ready s3 = gh_rag_ready s" by simp
      with f show ?thesis by (cases r) auto
    qed
  qed
qed

lemma gh_search_no_dense:
  assumes "strip query \<noteq> []"
    and "fst (gh_fetch_readme env h True s) = content"
    and "gh_dense_missing env content"
    and "\<not> gh_rag_ready s"
  shows "fst (gh_search env h query max_results s)
           = Inr (gh_search_keyword query content max_results)"
    and "\<not> gh_rag_ready (snd (gh_search env h query max_results s))"
proof -
  obtain s1 where f: "gh_fetch_readme env h True s = (content, s1)"
    using assms(2) by (cases "gh_fetch_readme env h True s") auto
  have ne: "content \<noteq> []" using assms(3) by (simp add: gh_dense_missing_def)
  have q: "query \<noteq> []" using assms(1) by (auto simp: strip_def)
  from gh_fetch_no_dense [OF assms(2) assms(3)] f assms(4)
  have i1: "\<not> gh_rag_ready s1" by simp
  obtain r s2 where e: "gh_ensure_rag_ready env content s1 = (r, s2)"
    by (cases "gh_ensure_rag_ready env content s1")
  from gh_ensure_no_dense [OF assms(3), of s1] e i1
  have r: "r = Inr ()" and nr: "\<not> gh_rag_ready s2" by simp_all
  from assms(1) q f ne e r nr
  have "gh_search env h query max_results s
          = (Inr (gh_search_keyword query content max_results), s2)"
    by (simp add: gh_search_def Let_def)
  with nr show "fst (gh_search env h query max_results s)
           = Inr (gh_search_keyword query content max_results)"
    and "\<not> gh_rag_ready (snd (gh_search env h query max_results s))"
    by simp_all
qed

lemma kb_chunk_documents_frame:
  "kb_chunk_documents env chunks docs s = (r, s') \<Longrightarrow> s' = s\<lparr>kb_trace := kb_trace s'\<rparr>"
proof (induction docs arbitrary: chunks s)
  case Nil
  then show ?case by simp
next
  case (Cons doc docs)
  show ?case
  proof (cases "chunk_document env (doc_content doc) [(''path'', doc_path doc), (''type'', doc_type doc)]")
    case (Inl e)
    with Cons.prems show ?thesis by (auto simp: Let_def kb_log_def)
  next
    case (Inr doc_chunks)
    with Cons.prems have "kb_chunk_documents env (chunks @ doc_chunks) docs
        (kb_log (ChunkDocument (doc_content doc)) s) = (r, s')"
      by (simp add: Let_def)
    from Cons.IH [OF this] show ?thesis
      by (simp add: kb_log_def)
  qed
qed


lemma kb_build_no_dense:
  assumes "kb_dense_missing env s" and "kb_use_embeddings s" and "\<not> kb_rag_ready s"
  shows "fst (kb_build_rag_index env s) = Inr ()"
    and "\<not> kb_rag_ready (snd (kb_build_rag_index env s))"
    and "\<not> kb_use_embeddings (snd (kb_build_rag_index env s))"
    and "kb_index (snd (kb_build_rag_index env s)) = kb_index s"
    and "kb_initialized (snd (kb_build_rag_index env s)) = kb_initialized s"
proof -
  obtain r s1 where c: "kb_chunk_documents env [] (kb_index s) s = (r, s1)"
    by (cases "kb_chunk_documents env [] (kb_index s) s")
  from assms(1) c obtain chunks where r: "r = Inr chunks" and ne: "chunks \<noteq> []"
    and nd: "no_dense env (map chunk_text chunks)"
    by (auto simp: kb_dense_missing_def split: sum.splits)
  from kb_chunk_documents_frame [OF c] have fr: "s1 = s\<lparr>kb_trace := kb_trace s1\<rparr>" .
  from nd obtain emb where en: "encode_documents env (map chunk_text chunks) = Inr emb"
    and de: "(case dense emb of None \<Rightarrow> [] | Some d \<Rightarrow> d) = []"
    by (auto simp: no_dense_def split: sum.splits option.splits)
  from c r ne en de assms(2,3)
  have b: "kb_build_rag_index env s
        = (Inr (), (kb_log (EncodeDocuments (map chunk_text chunks)) s1)\<lparr>kb_use_embeddings := False\<rparr>)"
    by (simp add: kb_build_rag_index_def Let_def)
  have f1: "kb_rag_ready s1 = kb_rag_ready s" and f2: "kb_index s1 = kb_index s"
    and f3: "kb_initialized s1 = kb_initialized s"
    by (subst fr, simp)+
  from b f1 f2 f3 assms(3)
  show "fst (kb_build_rag_index env s) = Inr ()"
    and "\<not> kb_rag_ready (snd (kb_build_rag_index env s))"
    and "\<not> kb_use_embeddings (snd (kb_build_rag_index env s))"
    and "kb_index (snd (kb_build_rag_index env s)) = kb_index s"
    and "kb_initialized (snd (kb_build_rag_index env s)) = kb_initialized s"
    by (simp_all add: kb_log_def)
qed

lemma kb_chunk_documents_building:
  "fst (kb_chunk_documents env chunks docs (s\<lparr>kb_building_index := b\<rparr>))
     = fst (kb_chunk_documents env chunks docs s)"
proof (induction docs arbitrary: chunks s)
  case Nil
  then show ?case by simp
next
  case (Cons doc docs)
  have "kb_log (ChunkDocument (doc_content doc)) (s\<lparr>kb_building_index := b\<rparr>)
        = (kb_log (ChunkDocument (doc_content doc)) s)\<lparr>kb_building_index := b\<rparr>"
    by (simp add: kb_log_def)
  with Cons.IH show ?case
    by (simp add: Let_def split: sum.splits)
qed

lemma kb_ensure_no_dense:
  assumes "kb_dense_missing env s" and "kb_use_embeddings s" and "\<not> kb_rag_ready s"
    and "\<not> kb_building_index s"
  shows "fst (kb_ensure_rag_ready env s) = Inr ()"
    and "\<not> kb_rag_ready (snd (kb_ensure_rag_ready env s))"
    and "\<not> kb_use_embeddings (snd (kb_ensure_rag_ready env s))"
    and "kb_index (snd (kb_ensure_rag_ready env s)) = kb_index s"
    and "kb_initialized (snd (kb_ensure_rag_ready env s)) = kb_initialized s"
proof -
  let ?s = "s\<lparr>kb_building_index := True\<rparr>"
  have ne: "kb_index s \<noteq> []"
    using assms(1) by (auto simp: kb_dense_missing_def)
  have dm: "kb_dense_missing env ?s"
    using assms(1) kb_chunk_documents_building [of env "[]" "kb_index s" True s]
    by (simp add: kb_dense_missing_def)
  have e: "kb_ensure_rag_ready env s
        = (fst (kb_build_rag_index env ?s), (snd (kb_build_rag_index env ?s))\<lparr>kb_building_index := False\<rparr>)"
    using assms(2,3,4) ne by (simp add: kb_ensure_rag_ready_def split: prod.splits)
  from kb_build_no_dense [OF dm] assms(2,3) e
  show "fst (kb_ensure_rag_ready env s) = Inr ()"
    and "\<not> kb_rag_ready (snd (kb_ensure_rag_ready env s))"
    and "\<not> kb_use_embeddings (snd (kb_ensure_rag_ready env s))"
    and "kb_index (snd (kb_ensure_rag_ready env s)) = kb_index s"
    and "kb_initialized (snd (kb_ensure_rag_ready env s)) = kb_initialized s"
    by simp_all
qed

lemma kb_search_without_embeddings:
  assumes "\<not> kb_use_embeddings s" and "kb_initialized s"
  shows "kb_search env dir query max_results s
         = (Inr (if strip query = [] \<or> kb_index s = [] then []
                 else kb_search_keyword (kb_index s) query max_results), s)"
  using assms by (auto simp: kb_search_def strip_def)


text \<open>
  Claim C7, as amended. When an index build receives no dense vectors (absent, or an empty
  list) it returns normally and leaves the index of the key as it was. If that index was
  not ready, it is still not ready, and the next search of the remote adapters returns the
  keyword results for the fetched text instead of raising. In \<open>KnowledgeBase\<close> the build
  also switches \<open>use_embeddings\<close> off, and from then on every search is answered by the
  keyword scan and leaves the adapter unchanged, so no build is tried again.
\<close>

theorem no_dense_vectors_fall_back:
  "(c7_dense_missing env content k \<longrightarrow>
      fst (c7_build_rag_index env content k c) = Inr ()
      \<and> c7_rag_indices (snd (c7_build_rag_index env content k c)) = c7_rag_indices c)
   \<and> (2 \<le> length (strip query)
       \<and> fst (c7_fetch env http topic tokens use_cache c) = content
       \<and> c7_dense_missing env content (or_else topic ''default'')
       \<and> \<not> c7_index_ready c (or_else topic ''default'') \<longrightarrow>
      fst (c7_search env http query topic tokens max_results use_cache c)
        = Inr (c7_search_keyword query content max_results)
      \<and> \<not> c7_index_ready
            (snd (c7_search env http query topic tokens max_results use_cache c))
            (or_else topic ''default''))
   \<and> (gh_dense_missing env content \<longrightarrow>
      fst (gh_build_rag_index env content g) = Inr ()
      \<and> gh_rag_ready (snd (gh_build_rag_index env content g)) = gh_rag_ready g
      \<and> gh_search_engine (snd (gh_build_rag_index env content g)) = gh_search_engine g)
   \<and> (strip query \<noteq> []
       \<and> fst (gh_fetch_readme env h True g) = content
       \<and> gh_dense_missing env content
       \<and> \<not> gh_rag_ready g \<longrightarrow>
      fst (gh_search env h query max_results g)
        = Inr (gh_search_keyword query content max_results)
      \<and> \<not> gh_rag_ready (snd (gh_search env h query max_results g)))
   \<and> (kb_dense_missing env b \<and> kb_use_embeddings b \<and> \<not> kb_rag_ready b \<longrightarrow>
      fst (kb_build_rag_index env b) = Inr ()
      \<and> \<not> kb_rag_ready (snd (kb_build_rag_index env b))
      \<and> \<not> kb_use_embeddings (snd (kb_build_rag_index env b)))
   \<and> (\<not> kb_use_embeddings b \<and> kb_initialized b \<longrightarrow>
      kb_search env dir query max_results b
        = (Inr (if strip query = [] \<or> kb_index b = [] then []
                else kb_search_keyword (kb_index b) query max_results), b))"
proof (intro conjI impI)
  assume "c7_dense_missing env content k"
  then show "fst (c7_build_rag_index env content k c) = Inr ()"
    and "c7_rag_indices (snd (c7_build_rag_index env content k c)) = c7_rag_indices c"
    by (rule c7_build_no_dense)+
next
  assume a: "2 \<le> length (strip query)
       \<and> fst (c7_fetch env http topic tokens use_cache c) = content
       \<and> c7_dense_missing env content (or_else topic ''default'')
       \<and> \<not> c7_index_ready c (or_else topic ''default'')"
  then show "fst (c7_search env http query topic tokens max_results use_cache c)
        = Inr (c7_search_keyword query content max_results)"
    by (intro c7_search_no_dense(1)) simp_all
  from a show "\<not> c7_index_ready
            (snd (c7_search env http query topic tokens max_results use_cache c))
            (or_else topic ''default'')"
    by (intro c7_search_no_dense(2) [where content = content]) simp_all
next
  assume "gh_dense_missing env content"
  then show "fst (gh_build_rag_index env content g) = Inr ()"
    and "gh_rag_ready (snd (gh_build_rag_index env content g)) = gh_rag_ready g"
    and "gh_search_engine (snd (gh_build_rag_index env content g)) = gh_search_engine g"
    by (rule gh_build_no_dense)+
next
  assume a: "strip query \<noteq> []
       \<and> fst (gh_fetch_readme env h True g) = content
       \<and> gh_dense_missing env content
       \<and> \<not> gh_rag_ready g"
  then show "fst (gh_search env h query max_results g)
        = Inr (gh_search_keyword query content max_results)"
    by (intro gh_search_no_dense(1)) simp_all
  from a show "\<not> gh_rag_ready (snd (gh_search env h query max_results g))"
    by (intro gh_search_no_dense(2) [where content = content]) simp_all
next
  assume a: "kb_dense_missing env b \<and> kb_use_embeddings b \<and> \<not> kb_rag_ready b"
  then show "fst (kb_build_rag_index env b) = Inr ()"
    by (intro kb_build_no_dense(1)) simp_all
  from a show "\<not> kb_rag_ready (snd (kb_build_rag_index env b))"
    by (intro kb_build_no_dense(2)) simp_all
  from a show "\<not> kb_use_embeddings (snd (kb_build_rag_index env b))"
    by (intro kb_build_no_dense(3)) simp_all
next
  assume "\<not> kb_use_embeddings b \<and> kb_initialized b"
  then show "kb_search env dir query max_results b
        = (Inr (if strip query = [] \<or> kb_index b = [] then []
                else kb_search_keyword (kb_index b) query max_results), b)"
    by (intro kb_search_without_embeddings) simp_all
qed

text \<open>
  An index that an earlier build made ready stays ready when a later build receives no
  dense vectors: the search then answers from the old index, not by the keyword scan.
\<close>

theorem no_dense_vectors_counterexample:
  "c7_index_ready c7_indexed ''default''
   \<and> c7_dense_missing env_partial jail_text ''default''
   \<and> c7_index_ready (snd (c7_build_rag_index env_partial jail_text ''default'' c7_indexed))
        ''default''
   \<and> fst (c7_fetch env_partial http_jail None 10000 False c7_indexed) = jail_text
   \<and> fst (c7_search env_partial http_jail ''jail'' None 10000 5 False c7_indexed)
        \<noteq> Inr (c7_search_keyword ''jail'' jail_text 5)
   \<and> c7_index_ready (snd (c7_search env_partial http_jail ''jail'' None 10000 5 False c7_indexed))
        ''default''"
  by code_simp

lemma no_dense_examples:
  "c7_dense_missing env_no_dense parole_text ''default''"
  "c7_dense_missing env_no_dense parole_text (or_else None ''default'')"
  "fst (c7_fetch env_no_dense http_parole None 10000 True c7_new) = parole_text"
  "\<not> c7_index_ready c7_new (or_else None ''default'')"
  "2 \<le> length (strip ''parole'')"
  "strip ''parole'' \<noteq> []"
  "gh_dense_missing env_no_dense parole_text"
  "fst (gh_fetch_readme env_no_dense (Body parole_text) True gh_new) = parole_text"
  "\<not> gh_rag_ready gh_new"
  "kb_dense_missing env_no_dense (kb_loaded True)"
  "kb_use_embeddings (kb_loaded True)"
  "\<not> kb_rag_ready (kb_loaded True)"
  "\<not> kb_use_embeddings (kb_loaded False)"
  "kb_initialized (kb_loaded False)"
  "kb_index (kb_loaded False) = [parole_doc]"
  by code_simp+

theorem no_dense_vectors_fall_back_witness:
  "fst (c7_build_rag_index env_no_dense parole_text ''default'' c7_new) = Inr ()
   \<and> fst (c7_search env_no_dense http_parole ''parole'' None 10000 5 True c7_new)
       = Inr (c7_search_keyword ''parole'' parole_text 5)
   \<and> fst (gh_search env_no_dense (Body parole_text) ''parole'' 5 gh_new)
       = Inr (gh_search_keyword ''parole'' parole_text 5)
   \<and> \<not> kb_use_embeddings (snd (kb_build_rag_index env_no_dense (kb_loaded True)))
   \<and> kb_search env_no_dense parole_dir ''parole'' 5 (kb_loaded False)
       = (Inr (kb_search_keyword [parole_doc] ''parole'' 5), kb_loaded False)"
proof -
  note e = no_dense_examples
  note t = no_dense_vectors_fall_back
             [where env = env_no_dense and content = parole_text and k = "''default''"
                and c = c7_new and query = "''parole''" and http = http_parole
                and topic = None and tokens = 10000 and use_cache = True
                and max_results = 5 and g = gh_new and h = "Body parole_text"
                and dir = parole_dir]
  note t1 = t [where b = "kb_loaded True"]
  note t2 = t [where b = "kb_loaded False"]
  have w1: "fst (c7_build_rag_index env_no_dense parole_text ''default'' c7_new) = Inr ()"
    using t1 [THEN conjunct1, THEN mp, OF e(1)] by simp
  have w2: "fst (c7_search env_no_dense http_parole ''parole'' None 10000 5 True c7_new)
       = Inr (c7_search_keyword ''parole'' parole_text 5)"
    using t1 [THEN conjunct2, THEN conjunct1, THEN mp,
              OF conjI [OF e(5) conjI [OF e(3) conjI [OF e(2) e(4)]]]]
    by simp
  have w3: "fst (gh_search env_no_dense (Body parole_text) ''parole'' 5 gh_new)
       = Inr (gh_search_keyword ''parole'' parole_text 5)"
    using t1 [THEN conjunct2, THEN conjunct2, THEN conjunct2, THEN conjunct1, THEN mp,
              OF conjI [OF e(6) conjI [OF e(8) conjI [OF e(7) e(9)]]]]
    by simp
  have w4: "\<not> kb_use_embeddings (snd (kb_build_rag_index env_no_dense (kb_loaded True)))"
    using t1 [THEN conjunct2, THEN conjunct2, THEN conjunct2, THEN conjunct2, THEN conjunct1,
              THEN mp, OF conjI [OF e(10) conjI [OF e(11) e(12)]]]
    by simp
  have w5: "kb_search env_no_dense parole_dir ''parole'' 5 (kb_loaded False)
       = (Inr (kb_search_keyword [parole_doc] ''parole'' 5), kb_loaded False)"
    using t2 [THEN conjunct2, THEN conjunct2, THEN conjunct2, THEN conjunct2, THEN conjunct2,
              THEN mp, OF conjI [OF e(13) e(14)]] e(6) e(15)
    by simp
  from w1 w2 w3 w4 w5 show ?thesis by (intro conjI)
qed

section \<open>Deduplication and ranking\<close>

lemma set_update_subset: "set (AList.update k v al) \<subseteq> insert (k, v) (set al)"
  by (induction al) auto

lemma keyed_update: "keyed al \<Longrightarrow> keyed (AList.update (dedup_key r) r al)"
  using set_update_subset [of "dedup_key r" r al]
  by (auto simp: keyed_def distinct_update list_all_iff)

lemma keyed_dedup_loop: "keyed al \<Longrightarrow> keyed (dedup_loop al rs)"
  by (induction rs arbitrary: al) (auto simp: Let_def keyed_update split: option.splits)

lemma dedup_loop_step:
  "dedup_loop al (r # rs) = dedup_loop al rs
   \<or> dedup_loop al (r # rs) = dedup_loop (AList.update (dedup_key r) r al) rs"
  by (simp add: Let_def split: option.splits)

lemma dedup_loop_values: "snd ` set (dedup_loop al rs) \<subseteq> snd ` set al \<union> set rs"
proof (induction rs arbitrary: al)
  case Nil
  then show ?case by simp
next
  case (Cons r rs)
  have u: "snd ` set (AList.update (dedup_key r) r al) \<subseteq> insert r (snd ` set al)"
    using set_update_subset [of "dedup_key r" r al] by force
  from dedup_loop_step [of al r rs] show ?case
  proof
    assume "dedup_loop al (r # rs) = dedup_loop al rs"
    with Cons.IH [of al] show ?thesis by auto
  next
    assume "dedup_loop al (r # rs) = dedup_loop (AList.update (dedup_key r) r al) rs"
    with Cons.IH [of "AList.update (dedup_key r) r al"] u show ?thesis by auto
  qed
qed

lemma dedup_loop_grows:
  "map_of al k = Some v \<Longrightarrow>
   \<exists>v'. map_of (dedup_loop al rs) k = Some v' \<and> score v \<le> score v'"
proof (induction rs arbitrary: al v)
  case Nil
  then show ?case by simp
next
  case (Cons r rs)
  show ?case
  proof (cases "dedup_key r = k")
    case True
    show ?thesis
    proof (cases "score r > score v")
      case greater: True
      have "map_of (AList.update (dedup_key r) r al) k = Some r"
        using True by (simp add: update_conv')
      from Cons.IH [OF this] True greater Cons.prems show ?thesis
        by (auto simp: Let_def)
    next
      case False
      with True Cons.IH [OF Cons.prems] Cons.prems show ?thesis
        by (simp add: Let_def)
    qed
  next
    case False
    then have stay: "map_of (AList.update (dedup_key r) r al) k = Some v"
      using Cons.prems by (simp add: update_conv')
    from dedup_loop_step [of al r rs] Cons.IH [OF Cons.prems] Cons.IH [OF stay]
    show ?thesis by auto
  qed
qed

lemma dedup_loop_covers:
  "b \<in> set rs \<Longrightarrow>
   \<exists>v. map_of (dedup_loop al rs) (dedup_key b) = Some v \<and> score b \<le> score v"
proof (induction rs arbitrary: al)
  case Nil
  then show ?case by simp
next
  case (Cons r rs)
  show ?case
  proof (cases "b \<in> set rs")
    case True
    from Cons.IH [OF True] show ?thesis
      by (auto simp: Let_def split: option.splits)
  next
    case False
    with Cons.prems have br: "b = r" by simp
    show ?thesis
    proof (cases "map_of al (dedup_key r)")
      case None
      have "map_of (AList.update (dedup_key r) r al) (dedup_key r) = Some r"
        by (simp add: update_conv')
      from dedup_loop_grows [OF this, of rs] None br show ?thesis
        by (auto simp: Let_def)
    next
      case (Some existing)
      show ?thesis
      proof (cases "score r > score existing")
        case True
        have "map_of (AList.update (dedup_key r) r al) (dedup_key r) = Some r"
          by (simp add: update_conv')
        from dedup_loop_grows [OF this, of rs] Some True br show ?thesis
          by (auto simp: Let_def)
      next
        case False
        from dedup_loop_grows [OF Some, of rs] Some False br show ?thesis
          by (auto simp: Let_def)
      qed
    qed
  qed
qed

lemma set_sorted_reverse: "set (sorted_reverse f xs) = set xs"
  by (simp add: sorted_reverse_def)

lemma distinct_sorted_reverse: "distinct (sorted_reverse f xs) = distinct xs"
  by (simp add: sorted_reverse_def)

lemma sorted_reverse_descending: "sorted_wrt (\<lambda>a b. f a \<ge> f b) (sorted_reverse f xs)"
proof -
  have "sorted (map f (sort_key f (rev xs)))" by simp
  then have "sorted_wrt (\<lambda>a b. f a \<le> f b) (sort_key f (rev xs))"
    by (simp add: sorted_map)
  then show ?thesis
    by (simp add: sorted_reverse_def sorted_wrt_rev)
qed

lemma keyed_empty: "keyed []"
  by (simp add: keyed_def)

lemma keyed_values:
  assumes "keyed al"
  shows "map (dedup_key \<circ> snd) al = map fst al"
  using assms by (simp add: keyed_def list_all_iff)

lemma keyed_lookup:
  assumes "keyed al" and "r \<in> snd ` set al"
  shows "map_of al (dedup_key r) = Some r"
proof -
  from assms(2) obtain k where m: "(k, r) \<in> set al" by force
  with assms(1) have "dedup_key r = k" by (force simp: keyed_def list_all_iff)
  with m assms(1) show ?thesis by (simp add: keyed_def)
qed

text \<open>
  Claim C2. For every list of scored candidates, the output of \<open>_deduplicate_results\<close>
  has pairwise different keys, where the key of a candidate is its fingerprint, or its chunk
  identifier when the fingerprint is absent or empty. Every result is one of the
  candidates, and every candidate is represented by a result with its key and at least its
  score. Of two candidates with the same key and different scores the lower one does not
  appear. The output is in descending order of score.
\<close>

theorem deduplicate_results_ranked:
  "distinct (map dedup_key (deduplicate_results results))
   \<and> set (deduplicate_results results) \<subseteq> set results
   \<and> (\<forall>b \<in> set results. \<exists>r \<in> set (deduplicate_results results).
         dedup_key r = dedup_key b \<and> score b \<le> score r)
   \<and> (\<forall>a \<in> set results. \<forall>b \<in> set results.
         dedup_key a = dedup_key b \<and> score a < score b
           \<longrightarrow> a \<notin> set (deduplicate_results results))
   \<and> sorted_wrt (\<lambda>a b. score a \<ge> score b) (deduplicate_results results)"
proof -
  let ?al = "dedup_loop [] results"
  let ?out = "deduplicate_results results"
  have k: "keyed ?al" by (rule keyed_dedup_loop [OF keyed_empty])
  have out: "set ?out = snd ` set ?al"
    by (simp add: deduplicate_results_def set_sorted_reverse)
  have "map (dedup_key \<circ> snd) ?al = map fst ?al"
    by (rule keyed_values [OF k])
  moreover have "distinct (map fst ?al)"
    using k by (simp add: keyed_def)
  ultimately have d0: "distinct (map dedup_key (map snd ?al))"
    by (simp only: map_map)
  from d0 have "distinct (map snd ?al) \<and> inj_on dedup_key (set (map snd ?al))"
    by (rule distinct_map [THEN iffD1])
  then have "distinct ?out \<and> inj_on dedup_key (set ?out)"
    by (simp only: deduplicate_results_def distinct_sorted_reverse set_sorted_reverse)
  then have c1: "distinct (map dedup_key ?out)"
    by (rule distinct_map [THEN iffD2])
  have c2: "set ?out \<subseteq> set results"
    using dedup_loop_values [of "[]" results] out by simp
  have cover: "\<exists>r \<in> set ?out. dedup_key r = dedup_key b \<and> score b \<le> score r"
    if "b \<in> set results" for b
  proof -
    from dedup_loop_covers [OF that, of "[]"] obtain v
      where v: "map_of ?al (dedup_key b) = Some v" and le: "score b \<le> score v" by blast
    from v have m: "(dedup_key b, v) \<in> set ?al" by (rule map_of_SomeD)
    with k have "dedup_key v = dedup_key b" by (force simp: keyed_def list_all_iff)
    moreover from m out have "v \<in> set ?out" by force
    ultimately show ?thesis using le by blast
  qed
  have c4: "a \<notin> set ?out"
    if "b \<in> set results" and "dedup_key a = dedup_key b" and "score a < score b" for a b
  proof
    assume "a \<in> set ?out"
    with out have "a \<in> snd ` set ?al" by simp
    from keyed_lookup [OF k this] have "map_of ?al (dedup_key a) = Some a" .
    moreover from dedup_loop_covers [OF that(1), of "[]"] obtain v
      where "map_of ?al (dedup_key b) = Some v" and "score b \<le> score v" by blast
    ultimately show False using that(2,3) by simp
  qed
  have c5: "sorted_wrt (\<lambda>a b. score a \<ge> score b) ?out"
    by (simp add: deduplicate_results_def sorted_reverse_descending)
  from c1 c2 cover c4 c5 show ?thesis by blast
qed


theorem deduplicate_results_ranked_witness:
  "deduplicate_results [low_result, other_result, high_result] = [high_result, other_result]
   \<and> low_result \<notin> set (deduplicate_results [low_result, other_result, high_result])
   \<and> distinct (map dedup_key (deduplicate_results [low_result, other_result, high_result]))"
proof -
  let ?rs = "[low_result, other_result, high_result]"
  note t = deduplicate_results_ranked [of ?rs]
  have h1: "low_result \<in> set ?rs" and h2: "high_result \<in> set ?rs"
    by simp_all
  have h3: "dedup_key low_result = dedup_key high_result \<and> score low_result < score high_result"
    by code_simp
  have ev: "deduplicate_results ?rs = [high_result, other_result]"
    by code_simp
  from t [THEN conjunct2, THEN conjunct2, THEN conjunct2, THEN conjunct1,
          THEN bspec, OF h1, THEN bspec, OF h2, THEN mp, OF h3]
       t [THEN conjunct1] ev
  show ?thesis by (intro conjI)
qed

section \<open>The keyword fallback of the knowledge base\<close>








lemma length_slice_to: "0 \<le> n \<Longrightarrow> length (slice_to n xs) \<le> nat n"
  by (simp add: slice_to_def)








end
